theory Spec2Isabelle
  imports Complex_Main "HOL-Library.Word"
begin

unbundle bit_operations_syntax

section \<open>The untyped document tree\<close>

text \<open>
  \<^verbatim>\<open>json.NewDecoder(r).Decode(&in)\<close> hands the parser a tree of
  \<^verbatim>\<open>map[string]interface{}\<close>, \<^verbatim>\<open>[]interface{}\<close>, \<^verbatim>\<open>float64\<close>,
  \<^verbatim>\<open>string\<close>, \<^verbatim>\<open>bool\<close> and \<^verbatim>\<open>nil\<close>.

  A Go map is visited by \<^verbatim>\<open>for k, v := range in\<close> in an order the runtime picks
  afresh for every loop, so an object is modelled as the list of its entries \<^emph>\<open>in the
  order the loop visits them\<close>. A statement for all lists is a statement for all visiting
  orders. A decoded map has pairwise distinct keys; keys that differ only in case are
  distinct keys.

  A \<^verbatim>\<open>float64\<close> that the decoder produced is finite, so it is a rational number. The
  parser only compares numbers with constants and converts them to integer types; both
  depend on the exact rational value alone, so a number is modelled by that value.
\<close>

type_synonym byte = "8 word"

datatype json =
    JNull
  | JBool bool
  | JNum rat
  | JStr string
  | JArr "json list"
  | JObj "(string \<times> json) list"

type_synonym obj = "(string \<times> json) list"

section \<open>What the parser takes from outside the file\<close>

text \<open>
  The parser calls the Go standard library. Four parts of it are not determined by the
  source file and are parameters of the model:
  \<^item> \<^verbatim>\<open>strings.ToLower\<close> on a string with a non-ASCII byte (it maps runes through the
    Unicode case tables);
  \<^item> \<^verbatim>\<open>net.ParseIP\<close> (\<^verbatim>\<open>nil\<close> is \<open>None\<close>);
  \<^item> \<^verbatim>\<open>net.ParseMAC\<close> on a text that is in none of the formats its documentation
    lists (an error is \<open>None\<close>);
  \<^item> the result of converting a \<^verbatim>\<open>float64\<close> to an integer type that cannot represent
    its truncation, which the language leaves to the implementation. The first argument
    is the width of the target type.
\<close>

record env =
  unicode_ToLower :: "string \<Rightarrow> string"
  net_ParseIP :: "string \<Rightarrow> byte list option"
  net_ParseMAC_other :: "string \<Rightarrow> byte list option"
  conv_overflow :: "nat \<Rightarrow> rat \<Rightarrow> int"

text \<open>\<^verbatim>\<open>rand.Uint32()\<close> draws from the process-wide generator: the state is the stream
  of draws still to come.\<close>

type_synonym rng = "nat \<Rightarrow> 32 word"

definition rand_Uint32 :: "rng \<Rightarrow> 32 word \<times> rng" where
  "rand_Uint32 r = (r 0, \<lambda>n. r (Suc n))"

subsection \<open>strings.ToLower\<close>

definition lower_byte :: "char \<Rightarrow> char" where
  "lower_byte c =
     (let n = (of_char c :: nat) in if 65 \<le> n \<and> n \<le> 90 then char_of (n + 32) else c)"

text \<open>On an ASCII-only string \<^verbatim>\<open>strings.ToLower\<close> maps \<^verbatim>\<open>'A'..'Z'\<close> to
  \<^verbatim>\<open>'a'..'z'\<close> byte by byte.\<close>

definition ToLower :: "env \<Rightarrow> string \<Rightarrow> string" where
  "ToLower E s =
     (if list_all (\<lambda>c. (of_char c :: nat) < 128) s then map lower_byte s
      else unicode_ToLower E s)"

subsection \<open>The compiled pattern\<close>

definition is_digit :: "char \<Rightarrow> bool" where
  "is_digit c = (48 \<le> (of_char c :: nat) \<and> (of_char c :: nat) \<le> 57)"

text \<open>\<^verbatim>\<open>regexp.MustCompile(`^mix[0-9]*$`)\<close>: the whole string is \<^verbatim>\<open>mix\<close> followed by
  ASCII digits.\<close>

definition mixPattern_MatchString :: "string \<Rightarrow> bool" where
  "mixPattern_MatchString s = (take 3 s = ''mix'' \<and> list_all is_digit (drop 3 s))"

subsection \<open>Conversions from float64\<close>

text \<open>Go discards the fraction (truncation towards zero).\<close>

definition trunc :: "rat \<Rightarrow> int" where
  "trunc f = (if 0 \<le> f then \<lfloor>f\<rfloor> else \<lceil>f\<rceil>)"

text \<open>\<^verbatim>\<open>uint8(f)\<close>, \<^verbatim>\<open>uint16(f)\<close>, \<^verbatim>\<open>uint32(f)\<close>, by the width of the result.\<close>

definition to_uint :: "env \<Rightarrow> rat \<Rightarrow> 'a::len word" where
  "to_uint E f =
     (let t = trunc f in
      if 0 \<le> t \<and> t < 2 ^ LENGTH('a) then word_of_int t
      else word_of_int (conv_overflow E LENGTH('a) f))"

text \<open>\<^verbatim>\<open>int64(f)\<close>.\<close>

definition to_int64 :: "env \<Rightarrow> rat \<Rightarrow> 64 word" where
  "to_int64 E f =
     (let t = trunc f in
      if - (2 ^ 63) \<le> t \<and> t < 2 ^ 63 then word_of_int t
      else word_of_int (conv_overflow E 64 f))"

text \<open>\<^verbatim>\<open>(int)(f)\<close>. Go's \<^verbatim>\<open>int\<close> has 32 or 64 bits; a truncation that fits 32 bits is
  the result on every platform, anything else is left to the parameter (width 0 stands
  for the platform's \<^verbatim>\<open>int\<close>).\<close>

definition to_int :: "env \<Rightarrow> rat \<Rightarrow> int" where
  "to_int E f =
     (let t = trunc f in
      if - (2 ^ 31) \<le> t \<and> t < 2 ^ 31 then t else conv_overflow E 0 f)"

subsection \<open>bytes.Compare and big.Int.Bytes\<close>

text \<open>\<^verbatim>\<open>bytes.Compare\<close> orders byte slices lexicographically, bytes unsigned; a
  \<^verbatim>\<open>nil\<close> slice is the empty one.\<close>

fun bytes_Compare :: "byte list \<Rightarrow> byte list \<Rightarrow> int" where
  "bytes_Compare [] [] = 0"
| "bytes_Compare [] (b # bs) = - 1"
| "bytes_Compare (a # as) [] = 1"
| "bytes_Compare (a # as) (b # bs) =
     (if a < b then - 1 else if b < a then 1 else bytes_Compare as bs)"

fun be_bytes :: "nat \<Rightarrow> byte list" where
  "be_bytes n = (if n = 0 then [] else be_bytes (n div 256) @ [word_of_nat (n mod 256)])"

declare be_bytes.simps [simp del]

text \<open>\<^verbatim>\<open>big.NewInt(x).Bytes()\<close>: the absolute value of \<open>x\<close> as a big-endian byte
  slice with no leading zero byte.\<close>

definition big_Bytes :: "64 word \<Rightarrow> byte list" where
  "big_Bytes x = be_bytes (nat \<bar>sint x\<bar>)"

subsection \<open>net.ParseMAC\<close>

text \<open>
  The documentation of \<^verbatim>\<open>net.ParseMAC\<close> in the Go standard library lists its
  formats: 6, 8 or 20 octets, written as two-digit hexadecimal groups separated by
  \<^verbatim>\<open>:\<close> or by \<^verbatim>\<open>-\<close>, or as four-digit groups separated by \<^verbatim>\<open>.\<close>.
  \<open>separated_MAC\<close> decodes a text in one of these formats and is \<open>None\<close> on every
  other text. What \<^verbatim>\<open>net.ParseMAC\<close> does with a text in none of these formats (a run
  of hexadecimal digits with no separator, for one) is left to the parameter
  \<open>net_ParseMAC_other\<close>.
\<close>

definition hexval :: "char \<Rightarrow> nat option" where
  "hexval c =
     (let n = (of_char c :: nat) in
      if 48 \<le> n \<and> n \<le> 57 then Some (n - 48)
      else if 97 \<le> n \<and> n \<le> 102 then Some (n - 97 + 10)
      else if 65 \<le> n \<and> n \<le> 70 then Some (n - 65 + 10)
      else None)"

text \<open>\<^verbatim>\<open>xtoi2(s, e)\<close>: the first two bytes of \<open>s\<close> as a hexadecimal byte; a third
  byte, when there is one, must be \<open>e\<close>.\<close>

definition xtoi2 :: "string \<Rightarrow> char \<Rightarrow> byte option" where
  "xtoi2 s e =
     (if length s > 2 \<and> s ! 2 \<noteq> e then None
      else case s of
        a # b # _ \<Rightarrow>
          (case (hexval a, hexval b) of
             (Some x, Some y) \<Rightarrow> Some (word_of_nat (16 * x + y))
           | _ \<Rightarrow> None)
      | _ \<Rightarrow> None)"

fun mac_groups2 :: "char \<Rightarrow> string \<Rightarrow> nat \<Rightarrow> byte list option" where
  "mac_groups2 e s 0 = Some []"
| "mac_groups2 e s (Suc i) =
     (case xtoi2 s e of
        None \<Rightarrow> None
      | Some b \<Rightarrow>
          (case mac_groups2 e (drop 3 s) i of None \<Rightarrow> None | Some bs \<Rightarrow> Some (b # bs)))"

fun mac_groups4 :: "char \<Rightarrow> string \<Rightarrow> nat \<Rightarrow> byte list option" where
  "mac_groups4 e s 0 = Some []"
| "mac_groups4 e s (Suc i) =
     (case xtoi2 (take 2 s) e of
        None \<Rightarrow> None
      | Some b \<Rightarrow>
          (case xtoi2 (drop 2 s) e of
             None \<Rightarrow> None
           | Some c \<Rightarrow>
               (case mac_groups4 e (drop 5 s) i of
                  None \<Rightarrow> None
                | Some bs \<Rightarrow> Some (b # c # bs))))"

definition separated_MAC :: "string \<Rightarrow> byte list option" where
  "separated_MAC s =
     (if length s < 14 then None
      else if s ! 2 = CHR '':'' \<or> s ! 2 = CHR ''-'' then
        (if (length s + 1) mod 3 \<noteq> 0 then None
         else let n = (length s + 1) div 3 in
           if n \<noteq> 6 \<and> n \<noteq> 8 \<and> n \<noteq> 20 then None else mac_groups2 (s ! 2) s n)
      else if s ! 4 = CHR ''.'' then
        (if (length s + 1) mod 5 \<noteq> 0 then None
         else let n = 2 * (length s + 1) div 5 in
           if n \<noteq> 6 \<and> n \<noteq> 8 \<and> n \<noteq> 20 then None else mac_groups4 (s ! 4) s (n div 2))
      else None)"

definition net_ParseMAC :: "env \<Rightarrow> string \<Rightarrow> byte list option" where
  "net_ParseMAC E s =
     (case separated_MAC s of Some hw \<Rightarrow> Some hw | None \<Rightarrow> net_ParseMAC_other E s)"

section \<open>Results, errors and panics\<close>

text \<open>
  An error is what \<^verbatim>\<open>fmt.Errorf(format, args...)\<close> was called with: the format string of
  the source line and its arguments. \<open>LibError\<close> is an error value made by the
  standard library (the decoder, \<^verbatim>\<open>net.ParseMAC\<close>).
\<close>

datatype error =
    Errorf string "fmt_arg list"
  | LibError
and fmt_arg =
    ArgErr error
  | ArgStr string
  | ArgNum rat
  | ArgInt int
  | ArgBytes "byte list"

text \<open>A failed type assertion \<^verbatim>\<open>v.(T)\<close> panics: the function returns nothing.\<close>

datatype 'a result = Panic | Err error | Ok 'a

section \<open>The packet-template model\<close>

record AddrRange =
  ar_Min :: "byte list"
  ar_Max :: "byte list"
  ar_Current :: "byte list"
  ar_Incr :: "byte list"

text \<open>\<^verbatim>\<open>AddrRange{}\<close>: four \<^verbatim>\<open>nil\<close> slices.\<close>

definition AddrRange_zero :: AddrRange where
  "AddrRange_zero = \<lparr>ar_Min = [], ar_Max = [], ar_Current = [], ar_Incr = []\<rparr>"

record PortRange =
  pr_Min :: "16 word"
  pr_Max :: "16 word"
  pr_Current :: "16 word"
  pr_Incr :: "16 word"

definition PortRange_zero :: PortRange where
  "PortRange_zero = \<lparr>pr_Min = 0, pr_Max = 0, pr_Current = 0, pr_Incr = 0\<rparr>"

datatype SequenceType = RANDOM | INCREASING

record Sequence =
  seq_Type :: SequenceType
  seq_Next :: "32 word"

definition Sequence_zero :: Sequence where
  "Sequence_zero = \<lparr>seq_Type = RANDOM, seq_Next = 0\<rparr>"

text \<open>The constants of \<^verbatim>\<open>DataType\<close>, in the order of the \<^verbatim>\<open>iota\<close> block.\<close>

datatype DataType =
  ETHERHDR | IPHDR | TCPHDR | UDPHDR | ICMPHDR | ARPHDR | PDISTDATA | RANDDATA | RAWDATA | NONE

text \<open>The integer each constant stands for; the zero value of a \<^verbatim>\<open>DataType\<close> field
  is the constant whose integer is 0.\<close>

fun DataType_int :: "DataType \<Rightarrow> int" where
  "DataType_int ETHERHDR = 0"
| "DataType_int IPHDR = 1"
| "DataType_int TCPHDR = 2"
| "DataType_int UDPHDR = 3"
| "DataType_int ICMPHDR = 4"
| "DataType_int ARPHDR = 5"
| "DataType_int PDISTDATA = 6"
| "DataType_int RANDDATA = 7"
| "DataType_int RAWDATA = 8"
| "DataType_int NONE = 9"

record RandBytes =
  rb_Size :: "32 word"
  rb_Deviation :: "32 word"

record Raw =
  raw_Data :: string

text \<open>
  A \<^verbatim>\<open>Data unsafe.Pointer\<close> field is modelled by what it points to, \<open>None\<close> for
  \<^verbatim>\<open>nil\<close>. The parser stores in each such field only pointers to the kinds listed in the
  datatype of that field.
\<close>

datatype pdist_data = PdRaw Raw | PdRand RandBytes

record PDistEntry =
  pd_Probability :: rat
  pd_DType :: DataType
  pd_Data :: "pdist_data option"

datatype payload = RawData Raw | RandData RandBytes | PDistData "PDistEntry list"

record TCPConfig =
  tcp_SPort :: PortRange
  tcp_DPort :: PortRange
  tcp_Seq :: Sequence
  tcp_Flags :: "8 word"
  tcp_DType :: DataType
  tcp_Data :: "payload option"

record UDPConfig =
  udp_SPort :: PortRange
  udp_DPort :: PortRange
  udp_DType :: DataType
  udp_Data :: "payload option"

record ICMPConfig =
  icmp_Type :: "8 word"
  icmp_Code :: "8 word"
  icmp_Identifier :: "16 word"
  icmp_Seq :: Sequence
  icmp_DType :: DataType
  icmp_Data :: "payload option"

record ARPConfig =
  arp_Operation :: "16 word"
  arp_Gratuitous :: bool
  arp_SHA :: AddrRange
  arp_SPA :: AddrRange
  arp_THA :: AddrRange
  arp_TPA :: AddrRange

datatype ip_data = IpTcp TCPConfig | IpUdp UDPConfig | IpIcmp ICMPConfig | IpPayload payload

record IPConfig =
  ip_Version :: int
  ip_SAddr :: AddrRange
  ip_DAddr :: AddrRange
  ip_DType :: DataType
  ip_Data :: "ip_data option"

datatype ether_data = EthIp IPConfig | EthArp ARPConfig | EthPayload payload

record VlanTagConfig =
  vlan_TCI :: "16 word"

record EtherConfig =
  eth_DAddr :: AddrRange
  eth_SAddr :: AddrRange
  eth_VLAN :: "VlanTagConfig option"
  eth_DType :: DataType
  eth_Data :: "ether_data option"

record PacketConfig =
  pc_DType :: DataType
  pc_Data :: EtherConfig

record MixConfig =
  mc_Config :: PacketConfig
  mc_Quantity :: "32 word"

section \<open>Payload parsers\<close>

text \<open>\<^verbatim>\<open>parseRaw\<close>: both branches of the switch return, so only the first visited key
  is looked at.\<close>

fun parseRaw :: "env \<Rightarrow> obj \<Rightarrow> Raw result" where
  "parseRaw E [] = Err (Errorf ''no key 'data' found inside 'raw' block'' [])"
| "parseRaw E ((k, v) # kvs) =
     (if ToLower E k = ''data'' then
        (case v of JStr s \<Rightarrow> Ok \<lparr>raw_Data = s\<rparr> | _ \<Rightarrow> Panic)
      else Err (Errorf ''unknown key in 'raw' block: %s'' [ArgStr k]))"

text \<open>The loop of \<^verbatim>\<open>parseRandBytes\<close>; its switch has no default case.\<close>

fun parseRandBytes_loop :: "env \<Rightarrow> obj \<Rightarrow> RandBytes \<Rightarrow> RandBytes result" where
  "parseRandBytes_loop E [] rBytes = Ok rBytes"
| "parseRandBytes_loop E ((k, v) # kvs) rBytes =
     (if ToLower E k = ''size'' then
        (case v of
           JNum f \<Rightarrow>
             if f < 0 then
               Err (Errorf ''invalid size value, should be positive: %f'' [ArgNum f])
             else parseRandBytes_loop E kvs (rBytes\<lparr>rb_Size := to_uint E f\<rparr>)
         | _ \<Rightarrow> Panic)
      else if ToLower E k = ''deviation'' then
        (case v of
           JNum f \<Rightarrow>
             if f < 0 then
               Err (Errorf ''invalid deviation value, should be positive: %f'' [ArgNum f])
             else parseRandBytes_loop E kvs (rBytes\<lparr>rb_Deviation := to_uint E f\<rparr>)
         | _ \<Rightarrow> Panic)
      else parseRandBytes_loop E kvs rBytes)"

definition parseRandBytes :: "env \<Rightarrow> obj \<Rightarrow> RandBytes result" where
  "parseRandBytes E in' =
     (case parseRandBytes_loop E in' \<lparr>rb_Size = 0, rb_Deviation = 0\<rparr> of
        Panic \<Rightarrow> Panic
      | Err e \<Rightarrow> Err e
      | Ok rBytes \<Rightarrow>
          if rb_Size rBytes < rb_Deviation rBytes then
            Err (Errorf ''deviation cant be larger than size'' [])
          else Ok rBytes)"

fun parsePdistEntry_loop :: "env \<Rightarrow> obj \<Rightarrow> PDistEntry \<Rightarrow> PDistEntry result" where
  "parsePdistEntry_loop E [] pdistElem = Ok pdistElem"
| "parsePdistEntry_loop E ((k, v) # kvs) pdistElem =
     (if ToLower E k = ''probability'' then
        (case v of
           JNum f \<Rightarrow>
             if f > 1 \<or> f < 0 then Err (Errorf ''invalid probability value: %f'' [ArgNum f])
             else parsePdistEntry_loop E kvs (pdistElem\<lparr>pd_Probability := f\<rparr>)
         | _ \<Rightarrow> Panic)
      else if ToLower E k = ''raw'' then
        (case v of
           JObj m \<Rightarrow>
             (case parseRaw E m of
                Panic \<Rightarrow> Panic
              | Err e \<Rightarrow> Err (Errorf ''parsing pdist entry: parseRaw returned %v'' [ArgErr e])
              | Ok data \<Rightarrow>
                  parsePdistEntry_loop E kvs
                    (pdistElem\<lparr>pd_Data := Some (PdRaw data), pd_DType := RAWDATA\<rparr>))
         | _ \<Rightarrow> Panic)
      else if ToLower E k = ''randbytes'' then
        (case v of
           JObj m \<Rightarrow>
             (case parseRandBytes E m of
                Panic \<Rightarrow> Panic
              | Err e \<Rightarrow>
                  Err (Errorf ''parsing pdist entry: parseRandBytes returned %v'' [ArgErr e])
              | Ok randBytes \<Rightarrow>
                  parsePdistEntry_loop E kvs
                    (pdistElem\<lparr>pd_Data := Some (PdRand randBytes), pd_DType := RANDDATA\<rparr>))
         | _ \<Rightarrow> Panic)
      else Err (Errorf ''unknown key %s'' [ArgStr k]))"

definition parsePdistEntry :: "env \<Rightarrow> obj \<Rightarrow> PDistEntry result" where
  "parsePdistEntry E in' =
     parsePdistEntry_loop E in'
       \<lparr>pd_Probability = 0, pd_DType = ETHERHDR, pd_Data = None\<rparr>"

fun parsePdist_loop :: "env \<Rightarrow> json list \<Rightarrow> PDistEntry list \<Rightarrow> PDistEntry list result" where
  "parsePdist_loop E [] pdist = Ok pdist"
| "parsePdist_loop E (v # vs) pdist =
     (case v of
        JObj m \<Rightarrow>
          (case parsePdistEntry E m of
             Panic \<Rightarrow> Panic
           | Err e \<Rightarrow> Err (Errorf ''parsing pdistentry returned: %v'' [ArgErr e])
           | Ok pdistElem \<Rightarrow> parsePdist_loop E vs (pdist @ [pdistElem]))
      | _ \<Rightarrow> Panic)"

definition parsePdist :: "env \<Rightarrow> json list \<Rightarrow> PDistEntry list result" where
  "parsePdist E in' = parsePdist_loop E in' []"

text \<open>\<^verbatim>\<open>parseData\<close> returns a pointer, its tag and an error. The default case prints
  the key and goes on with the next one; printing is left out of the model.\<close>

fun parseData :: "env \<Rightarrow> obj \<Rightarrow> (payload \<times> DataType) result" where
  "parseData E [] = Err (Errorf ''failed to parse data'' [])"
| "parseData E ((k, v) # kvs) =
     (if ToLower E k = ''raw'' then
        (case v of
           JObj m \<Rightarrow>
             (case parseRaw E m of
                Panic \<Rightarrow> Panic
              | Err e \<Rightarrow> Err (Errorf ''parseRaw returned %v'' [ArgErr e])
              | Ok data \<Rightarrow> Ok (RawData data, RAWDATA))
         | _ \<Rightarrow> Panic)
      else if ToLower E k = ''randbytes'' then
        (case v of
           JObj m \<Rightarrow>
             (case parseRandBytes E m of
                Panic \<Rightarrow> Panic
              | Err e \<Rightarrow> Err (Errorf ''parseRandBytes returned %v'' [ArgErr e])
              | Ok randBytes \<Rightarrow> Ok (RandData randBytes, RANDDATA))
         | _ \<Rightarrow> Panic)
      else if ToLower E k = ''pdist'' then
        (case v of
           JArr vs \<Rightarrow>
             (case parsePdist E vs of
                Panic \<Rightarrow> Panic
              | Err e \<Rightarrow> Err (Errorf ''parsePdist returned %v'' [ArgErr e])
              | Ok pdist \<Rightarrow> Ok (PDistData pdist, PDISTDATA))
         | _ \<Rightarrow> Panic)
      else parseData E kvs)"

section \<open>Addresses and ports\<close>

text \<open>\<^verbatim>\<open>type fn func(string) ([]uint8, error)\<close>: a text-to-bytes decoder.\<close>

type_synonym fn = "string \<Rightarrow> byte list result"

definition parseRawIPAddr :: "env \<Rightarrow> fn" where
  "parseRawIPAddr E rawAddr =
     (case net_ParseIP E rawAddr of
        None \<Rightarrow> Err (Errorf ''parsing ip addr could not parse address for %s'' [ArgStr rawAddr])
      | Some addr \<Rightarrow> Ok addr)"

definition parseRawMACAddr :: "env \<Rightarrow> fn" where
  "parseRawMACAddr E rawAddr =
     (case net_ParseMAC E rawAddr of
        None \<Rightarrow>
          Err (Errorf ''parsing mac addr returned: %v for %s'' [ArgErr LibError, ArgStr rawAddr])
      | Some addr \<Rightarrow> Ok addr)"

text \<open>The variables of the loop of \<^verbatim>\<open>parseAddrRange\<close>.\<close>

record addr_vars =
  addr :: AddrRange
  wasMin :: bool
  wasMax :: bool
  wasStart :: bool
  wasIncr :: bool

fun parseAddrRange_loop :: "env \<Rightarrow> fn \<Rightarrow> obj \<Rightarrow> addr_vars \<Rightarrow> addr_vars result" where
  "parseAddrRange_loop E parseFunc [] st = Ok st"
| "parseAddrRange_loop E parseFunc ((k, v) # kvs) st =
     (if ToLower E k = ''min'' then
        (case v of
           JStr s \<Rightarrow>
             (case parseFunc s of
                Panic \<Rightarrow> Panic
              | Err e \<Rightarrow> Err (Errorf ''parsing min returned: %v'' [ArgErr e])
              | Ok min' \<Rightarrow>
                  parseAddrRange_loop E parseFunc kvs
                    (st\<lparr>addr := (addr st)\<lparr>ar_Min := min'\<rparr>, wasMin := True\<rparr>))
         | _ \<Rightarrow> Panic)
      else if ToLower E k = ''max'' then
        (case v of
           JStr s \<Rightarrow>
             (case parseFunc s of
                Panic \<Rightarrow> Panic
              | Err e \<Rightarrow> Err (Errorf ''parsing max returned: %v'' [ArgErr e])
              | Ok max' \<Rightarrow>
                  parseAddrRange_loop E parseFunc kvs
                    (st\<lparr>addr := (addr st)\<lparr>ar_Max := max'\<rparr>, wasMax := True\<rparr>))
         | _ \<Rightarrow> Panic)
      else if ToLower E k = ''start'' then
        (case v of
           JStr s \<Rightarrow>
             (case parseFunc s of
                Panic \<Rightarrow> Panic
              | Err e \<Rightarrow> Err (Errorf ''parsing start returned: %v'' [ArgErr e])
              | Ok start \<Rightarrow>
                  parseAddrRange_loop E parseFunc kvs
                    (st\<lparr>addr := (addr st)\<lparr>ar_Current := start\<rparr>, wasStart := True\<rparr>))
         | _ \<Rightarrow> Panic)
      else if ToLower E k = ''incr'' then
        (case v of
           JNum f \<Rightarrow>
             parseAddrRange_loop E parseFunc kvs
               (st\<lparr>addr := (addr st)\<lparr>ar_Incr := big_Bytes (to_int64 E f)\<rparr>, wasIncr := True\<rparr>)
         | _ \<Rightarrow> Panic)
      else Err (Errorf ''unknown key %s'' [ArgStr k]))"

definition parseAddrRange :: "env \<Rightarrow> obj \<Rightarrow> fn \<Rightarrow> AddrRange result" where
  "parseAddrRange E in' parseFunc =
     (case parseAddrRange_loop E parseFunc in'
             \<lparr>addr = AddrRange_zero, wasMin = False, wasMax = False, wasStart = False,
              wasIncr = False\<rparr> of
        Panic \<Rightarrow> Panic
      | Err e \<Rightarrow> Err e
      | Ok st \<Rightarrow>
          if \<not> wasMax st \<or> \<not> wasMin st then
            Err (Errorf ''Min and max values should be given for range'' [])
          else if bytes_Compare (ar_Max (addr st)) (ar_Min (addr st)) < 0 then
            Err (Errorf ''Min value should be less than Max'' [])
          else
            let a1 = (if \<not> wasStart st then (addr st)\<lparr>ar_Current := ar_Min (addr st)\<rparr>
                      else addr st)
            in
              if bytes_Compare (ar_Current a1) (ar_Min a1) < 0
                 \<or> bytes_Compare (ar_Current a1) (ar_Max a1) > 0 then
                Err (Errorf
                  ''Start value should be between min and max: start=%v, min=%v, max=%v''
                  [ArgBytes (ar_Current a1), ArgBytes (ar_Min a1), ArgBytes (ar_Max a1)])
              else Ok (if \<not> wasIncr st then a1\<lparr>ar_Incr := [1]\<rparr> else a1))"

text \<open>A bare address: \<^verbatim>\<open>Min\<close>, \<^verbatim>\<open>Max\<close> and \<^verbatim>\<open>Current\<close> are copies of it,
  \<^verbatim>\<open>Incr\<close> stays \<^verbatim>\<open>nil\<close>.\<close>

definition single_addr :: "byte list \<Rightarrow> AddrRange" where
  "single_addr saddr = \<lparr>ar_Min = saddr, ar_Max = saddr, ar_Current = saddr, ar_Incr = []\<rparr>"

text \<open>In the map case of the type switch both branches of the inner switch return, so
  only the first visited key is looked at; an empty map falls through to the last
  line.\<close>

definition parseMacAddr :: "env \<Rightarrow> json \<Rightarrow> AddrRange result" where
  "parseMacAddr E value =
     (case value of
        JObj ((k, v) # kvs) \<Rightarrow>
          (if ToLower E k = ''range'' then
             (case v of
                JObj m \<Rightarrow>
                  (case parseAddrRange E m (parseRawMACAddr E) of
                     Panic \<Rightarrow> Panic
                   | Err e \<Rightarrow> Err (Errorf ''parseAddrRange returned: %v'' [ArgErr e])
                   | Ok saddrRange \<Rightarrow> Ok saddrRange)
              | _ \<Rightarrow> Panic)
           else Err (Errorf ''unknown key in parse mac addr: %s'' [ArgStr k]))
      | JStr v2 \<Rightarrow>
          (case net_ParseMAC E v2 of
             None \<Rightarrow> Err (Errorf ''parsing mac saddr returned: %v'' [ArgErr LibError])
           | Some saddr \<Rightarrow> Ok (single_addr saddr))
      | _ \<Rightarrow> Err (Errorf ''unknown type'' []))"

definition parseIPAddr :: "env \<Rightarrow> json \<Rightarrow> AddrRange result" where
  "parseIPAddr E value =
     (case value of
        JObj ((k, v) # kvs) \<Rightarrow>
          (if ToLower E k = ''range'' then
             (case v of
                JObj m \<Rightarrow>
                  (case parseAddrRange E m (parseRawIPAddr E) of
                     Panic \<Rightarrow> Panic
                   | Err e \<Rightarrow> Err (Errorf ''parseAddrRange returned: %v'' [ArgErr e])
                   | Ok addrRange \<Rightarrow> Ok addrRange)
              | _ \<Rightarrow> Panic)
           else Err (Errorf ''unknown key in ip addr: %s'' [ArgStr k]))
      | JStr v2 \<Rightarrow>
          (case parseRawIPAddr E v2 of
             Panic \<Rightarrow> Panic
           | Err e \<Rightarrow> Err (Errorf ''parsing ip addr returned: %v'' [ArgErr e])
           | Ok saddr \<Rightarrow> Ok (single_addr saddr))
      | _ \<Rightarrow> Err (Errorf ''unknown type'' []))"

record port_vars =
  portRng :: PortRange
  pwasMin :: bool
  pwasMax :: bool
  pwasStart :: bool
  pwasIncr :: bool

fun parsePortRange_loop :: "env \<Rightarrow> obj \<Rightarrow> port_vars \<Rightarrow> port_vars result" where
  "parsePortRange_loop E [] st = Ok st"
| "parsePortRange_loop E ((k, v) # kvs) st =
     (if ToLower E k = ''min'' then
        (case v of
           JNum f \<Rightarrow>
             if f < 0 then Err (Errorf ''Min should be positive'' [])
             else parsePortRange_loop E kvs
                    (st\<lparr>portRng := (portRng st)\<lparr>pr_Min := to_uint E f\<rparr>, pwasMin := True\<rparr>)
         | _ \<Rightarrow> Panic)
      else if ToLower E k = ''max'' then
        (case v of
           JNum f \<Rightarrow>
             if f < 0 then Err (Errorf ''Max should be positive'' [])
             else parsePortRange_loop E kvs
                    (st\<lparr>portRng := (portRng st)\<lparr>pr_Max := to_uint E f\<rparr>, pwasMax := True\<rparr>)
         | _ \<Rightarrow> Panic)
      else if ToLower E k = ''start'' then
        (case v of
           JNum f \<Rightarrow>
             if f < 0 then Err (Errorf ''Start should be positive'' [])
             else parsePortRange_loop E kvs
                    (st\<lparr>portRng := (portRng st)\<lparr>pr_Current := to_uint E f\<rparr>,
                        pwasStart := True\<rparr>)
         | _ \<Rightarrow> Panic)
      else if ToLower E k = ''incr'' then
        (case v of
           JNum f \<Rightarrow>
             if f < 0 then Err (Errorf ''Incr should be positive'' [])
             else parsePortRange_loop E kvs
                    (st\<lparr>portRng := (portRng st)\<lparr>pr_Incr := to_uint E f\<rparr>, pwasIncr := True\<rparr>)
         | _ \<Rightarrow> Panic)
      else Err (Errorf ''unknown key %s'' [ArgStr k]))"

definition parsePortRange :: "env \<Rightarrow> obj \<Rightarrow> PortRange result" where
  "parsePortRange E in' =
     (case parsePortRange_loop E in'
             \<lparr>portRng = PortRange_zero, pwasMin = False, pwasMax = False, pwasStart = False,
              pwasIncr = False\<rparr> of
        Panic \<Rightarrow> Panic
      | Err e \<Rightarrow> Err e
      | Ok st \<Rightarrow>
          if \<not> pwasMax st \<or> \<not> pwasMin st then
            Err (Errorf ''Min and max values should be given for range'' [])
          else if pr_Max (portRng st) < pr_Min (portRng st) then
            Err (Errorf ''Min value should be <= Max value'' [])
          else
            let p1 = (if \<not> pwasStart st then (portRng st)\<lparr>pr_Current := pr_Min (portRng st)\<rparr>
                      else portRng st)
            in
              if pr_Current p1 < pr_Min p1 \<or> pr_Current p1 > pr_Max p1 then
                Err (Errorf ''Start should be in range of min and max'' [])
              else Ok (if \<not> pwasIncr st then p1\<lparr>pr_Incr := 1\<rparr> else p1))"

definition parsePort :: "env \<Rightarrow> json \<Rightarrow> PortRange result" where
  "parsePort E in' =
     (case in' of
        JObj ((k, v) # kvs) \<Rightarrow>
          (if ToLower E k = ''range'' then
             (case v of
                JObj m \<Rightarrow>
                  (case parsePortRange E m of
                     Panic \<Rightarrow> Panic
                   | Err e \<Rightarrow> Err (Errorf ''parseAddrRange returned: %v'' [ArgErr e])
                   | Ok portRng' \<Rightarrow> Ok portRng')
              | _ \<Rightarrow> Panic)
           else Err (Errorf ''unknown key in port: %s'' [ArgStr k]))
      | JNum f \<Rightarrow>
          if f < 0 then Err (Errorf ''Port should be positive'' [])
          else
            let port = to_uint E f in
              Ok \<lparr>pr_Min = port, pr_Max = port, pr_Current = port, pr_Incr = 0\<rparr>
      | _ \<Rightarrow> Err (Errorf ''unknown type'' []))"

section \<open>Sequences and TCP flags\<close>

definition parseSeq :: "env \<Rightarrow> string \<Rightarrow> rng \<Rightarrow> (Sequence \<times> rng) result" where
  "parseSeq E in' r =
     (let s = ToLower E in' in
      if s = ''rand'' \<or> s = ''random'' then
        (let (x, r') = rand_Uint32 r in Ok (\<lparr>seq_Type = RANDOM, seq_Next = x\<rparr>, r'))
      else if s = ''incr'' \<or> s = ''increasing'' then
        Ok (\<lparr>seq_Type = INCREASING, seq_Next = 0\<rparr>, r)
      else Err (Errorf ''unknown key for tcp sequence: %s'' [ArgStr in']))"

text \<open>
  Modelled from the spec: the constants \<^verbatim>\<open>common.TCPFlagFin\<close> ...
  \<^verbatim>\<open>common.TCPFlagCwr\<close> and the type \<^verbatim>\<open>common.TCPFlags\<close> are declared in the
  package \<^verbatim>\<open>common\<close>, which is not among the source files. The spec calls each "the
  corresponding bit": they are the eight flag bits of the TCP header, in a byte.
\<close>

definition TCPFlagFin :: "8 word" where "TCPFlagFin = 0x01"
definition TCPFlagSyn :: "8 word" where "TCPFlagSyn = 0x02"
definition TCPFlagRst :: "8 word" where "TCPFlagRst = 0x04"
definition TCPFlagPsh :: "8 word" where "TCPFlagPsh = 0x08"
definition TCPFlagAck :: "8 word" where "TCPFlagAck = 0x10"
definition TCPFlagUrg :: "8 word" where "TCPFlagUrg = 0x20"
definition TCPFlagEce :: "8 word" where "TCPFlagEce = 0x40"
definition TCPFlagCwr :: "8 word" where "TCPFlagCwr = 0x80"

fun parseTCPFlags_loop :: "env \<Rightarrow> json list \<Rightarrow> 8 word \<Rightarrow> 8 word result" where
  "parseTCPFlags_loop E [] ret = Ok ret"
| "parseTCPFlags_loop E (flag # rest) ret =
     (case flag of
        JStr s \<Rightarrow>
          (let f = ToLower E s in
           if f = ''fin'' then parseTCPFlags_loop E rest (ret XOR TCPFlagFin)
           else if f = ''syn'' then parseTCPFlags_loop E rest (ret XOR TCPFlagSyn)
           else if f = ''rst'' then parseTCPFlags_loop E rest (ret XOR TCPFlagRst)
           else if f = ''psh'' then parseTCPFlags_loop E rest (ret XOR TCPFlagPsh)
           else if f = ''ack'' then parseTCPFlags_loop E rest (ret XOR TCPFlagAck)
           else if f = ''urg'' then parseTCPFlags_loop E rest (ret XOR TCPFlagUrg)
           else if f = ''ece'' then parseTCPFlags_loop E rest (ret XOR TCPFlagEce)
           else if f = ''cwr'' then parseTCPFlags_loop E rest (ret XOR TCPFlagCwr)
           else Err (Errorf ''unknown flag value: %s'' [ArgStr s]))
      | _ \<Rightarrow> Panic)"

definition parseTCPFlags :: "env \<Rightarrow> json list \<Rightarrow> 8 word result" where
  "parseTCPFlags E in' = parseTCPFlags_loop E in' 0"

section \<open>Header parsers\<close>

text \<open>
  A header that calls \<^verbatim>\<open>parseSeq\<close>, itself or below it, takes the generator's state
  and returns it with the header.

  A field that a composite literal does not name has the zero value of its type; for a
  \<^verbatim>\<open>DataType\<close> that is the constant declared first.
\<close>

definition DataType_zero :: DataType where
  "DataType_zero = ETHERHDR"

definition TCPConfig_init :: TCPConfig where
  "TCPConfig_init =
     \<lparr>tcp_SPort = PortRange_zero, tcp_DPort = PortRange_zero, tcp_Seq = Sequence_zero,
      tcp_Flags = 0, tcp_DType = DataType_zero, tcp_Data = None\<rparr>"

fun parseTCPHdr_loop ::
  "env \<Rightarrow> obj \<Rightarrow> TCPConfig \<Rightarrow> rng \<Rightarrow> (TCPConfig \<times> rng) result" where
  "parseTCPHdr_loop E [] tcpHdr r = Ok (tcpHdr, r)"
| "parseTCPHdr_loop E ((k, v) # kvs) tcpHdr r =
     (if ToLower E k = ''sport'' then
        (case parsePort E v of
           Panic \<Rightarrow> Panic
         | Err e \<Rightarrow> Err (Errorf ''parsePort for tcp sport returned: %v'' [ArgErr e])
         | Ok sport \<Rightarrow> parseTCPHdr_loop E kvs (tcpHdr\<lparr>tcp_SPort := sport\<rparr>) r)
      else if ToLower E k = ''dport'' then
        (case parsePort E v of
           Panic \<Rightarrow> Panic
         | Err e \<Rightarrow> Err (Errorf ''parsePort for tcp dport returned: %v'' [ArgErr e])
         | Ok dport \<Rightarrow> parseTCPHdr_loop E kvs (tcpHdr\<lparr>tcp_DPort := dport\<rparr>) r)
      else if ToLower E k = ''seq'' then
        (case v of
           JStr s \<Rightarrow>
             (case parseSeq E s r of
                Panic \<Rightarrow> Panic
              | Err e \<Rightarrow> Err (Errorf ''failed to parse tcp sequence: %v'' [ArgErr e])
              | Ok (seq, r') \<Rightarrow> parseTCPHdr_loop E kvs (tcpHdr\<lparr>tcp_Seq := seq\<rparr>) r')
         | _ \<Rightarrow> Panic)
      else if ToLower E k = ''flags'' then
        (case v of
           JArr fs \<Rightarrow>
             (case parseTCPFlags E fs of
                Panic \<Rightarrow> Panic
              | Err e \<Rightarrow> Err (Errorf ''parseTCPFlags failed with %v'' [ArgErr e])
              | Ok flags \<Rightarrow> parseTCPHdr_loop E kvs (tcpHdr\<lparr>tcp_Flags := flags\<rparr>) r)
         | _ \<Rightarrow> Panic)
      else
        (case parseData E [(k, v)] of
           Panic \<Rightarrow> Panic
         | Err e \<Rightarrow> Err (Errorf ''parseData for tcp returned: %v'' [ArgErr e])
         | Ok (data, dataType) \<Rightarrow>
             parseTCPHdr_loop E kvs (tcpHdr\<lparr>tcp_Data := Some data, tcp_DType := dataType\<rparr>) r))"

definition parseTCPHdr :: "env \<Rightarrow> obj \<Rightarrow> rng \<Rightarrow> (TCPConfig \<times> rng) result" where
  "parseTCPHdr E in' r = parseTCPHdr_loop E in' TCPConfig_init r"

definition UDPConfig_init :: UDPConfig where
  "UDPConfig_init =
     \<lparr>udp_SPort = PortRange_zero, udp_DPort = PortRange_zero, udp_DType = DataType_zero,
      udp_Data = None\<rparr>"

fun parseUDPHdr_loop :: "env \<Rightarrow> obj \<Rightarrow> UDPConfig \<Rightarrow> UDPConfig result" where
  "parseUDPHdr_loop E [] udpHdr = Ok udpHdr"
| "parseUDPHdr_loop E ((k, v) # kvs) udpHdr =
     (if ToLower E k = ''sport'' then
        (case parsePort E v of
           Panic \<Rightarrow> Panic
         | Err e \<Rightarrow> Err (Errorf ''parsePort for tcp sport returned: %v'' [ArgErr e])
         | Ok sport \<Rightarrow> parseUDPHdr_loop E kvs (udpHdr\<lparr>udp_SPort := sport\<rparr>))
      else if ToLower E k = ''dport'' then
        (case parsePort E v of
           Panic \<Rightarrow> Panic
         | Err e \<Rightarrow> Err (Errorf ''parsePort for tcp dport returned: %v'' [ArgErr e])
         | Ok dport \<Rightarrow> parseUDPHdr_loop E kvs (udpHdr\<lparr>udp_DPort := dport\<rparr>))
      else
        (case parseData E [(k, v)] of
           Panic \<Rightarrow> Panic
         | Err e \<Rightarrow> Err (Errorf ''parseData for udp returned: %v'' [ArgErr e])
         | Ok (data, dataType) \<Rightarrow>
             parseUDPHdr_loop E kvs (udpHdr\<lparr>udp_Data := Some data, udp_DType := dataType\<rparr>)))"

definition parseUDPHdr :: "env \<Rightarrow> obj \<Rightarrow> UDPConfig result" where
  "parseUDPHdr E in' = parseUDPHdr_loop E in' UDPConfig_init"

text \<open>\<^verbatim>\<open>ICMPConfig{Data: unsafe.Pointer(&Raw{Data: ""})}\<close>.\<close>

definition ICMPConfig_init :: ICMPConfig where
  "ICMPConfig_init =
     \<lparr>icmp_Type = 0, icmp_Code = 0, icmp_Identifier = 0, icmp_Seq = Sequence_zero,
      icmp_DType = DataType_zero, icmp_Data = Some (RawData \<lparr>raw_Data = []\<rparr>)\<rparr>"

fun parseICMPHdr_loop ::
  "env \<Rightarrow> obj \<Rightarrow> ICMPConfig \<Rightarrow> rng \<Rightarrow> (ICMPConfig \<times> rng) result" where
  "parseICMPHdr_loop E [] icmpHdr r = Ok (icmpHdr, r)"
| "parseICMPHdr_loop E ((k, v) # kvs) icmpHdr r =
     (if ToLower E k = ''type'' then
        (case v of
           JNum f \<Rightarrow> parseICMPHdr_loop E kvs (icmpHdr\<lparr>icmp_Type := to_uint E f\<rparr>) r
         | _ \<Rightarrow> Panic)
      else if ToLower E k = ''code'' then
        (case v of
           JNum f \<Rightarrow> parseICMPHdr_loop E kvs (icmpHdr\<lparr>icmp_Code := to_uint E f\<rparr>) r
         | _ \<Rightarrow> Panic)
      else if ToLower E k = ''identifier'' \<or> ToLower E k = ''id'' then
        (case v of
           JNum f \<Rightarrow> parseICMPHdr_loop E kvs (icmpHdr\<lparr>icmp_Identifier := to_uint E f\<rparr>) r
         | _ \<Rightarrow> Panic)
      else if ToLower E k = ''seq'' \<or> ToLower E k = ''seqnum'' then
        (case v of
           JStr s \<Rightarrow>
             (case parseSeq E s r of
                Panic \<Rightarrow> Panic
              | Err e \<Rightarrow> Err (Errorf ''failed to parse icmp sequence: %v'' [ArgErr e])
              | Ok (seq, r') \<Rightarrow> parseICMPHdr_loop E kvs (icmpHdr\<lparr>icmp_Seq := seq\<rparr>) r')
         | _ \<Rightarrow> Panic)
      else
        (case parseData E [(k, v)] of
           Panic \<Rightarrow> Panic
         | Err e \<Rightarrow> Err (Errorf ''parseData for icmp returned: %v'' [ArgErr e])
         | Ok (data, dataType) \<Rightarrow>
             parseICMPHdr_loop E kvs
               (icmpHdr\<lparr>icmp_Data := Some data, icmp_DType := dataType\<rparr>) r))"

definition parseICMPHdr :: "env \<Rightarrow> obj \<Rightarrow> rng \<Rightarrow> (ICMPConfig \<times> rng) result" where
  "parseICMPHdr E in' r = parseICMPHdr_loop E in' ICMPConfig_init r"

definition ARPConfig_init :: ARPConfig where
  "ARPConfig_init =
     \<lparr>arp_Operation = 1, arp_Gratuitous = False, arp_SHA = AddrRange_zero,
      arp_SPA = AddrRange_zero, arp_THA = AddrRange_zero, arp_TPA = AddrRange_zero\<rparr>"

fun parseARPHdr_loop :: "env \<Rightarrow> obj \<Rightarrow> ARPConfig \<Rightarrow> ARPConfig result" where
  "parseARPHdr_loop E [] arpHdr = Ok arpHdr"
| "parseARPHdr_loop E ((k, v) # kvs) arpHdr =
     (if ToLower E k = ''opcode'' then
        (case v of
           JNum opcode \<Rightarrow>
             if opcode < 1 \<or> opcode > 2 then
               Err (Errorf ''support opcodes [1,2], got: %d''
                      [ArgInt (uint (to_uint E opcode :: 16 word))])
             else parseARPHdr_loop E kvs (arpHdr\<lparr>arp_Operation := to_uint E opcode\<rparr>)
         | _ \<Rightarrow> Panic)
      else if ToLower E k = ''gratuitous'' then
        (case v of
           JBool b \<Rightarrow> parseARPHdr_loop E kvs (arpHdr\<lparr>arp_Gratuitous := b\<rparr>)
         | _ \<Rightarrow> Panic)
      else if ToLower E k = ''sha'' then
        (case parseMacAddr E v of
           Panic \<Rightarrow> Panic
         | Err e \<Rightarrow> Err (Errorf ''parseMacAddr for sha returned: %v'' [ArgErr e])
         | Ok sha \<Rightarrow> parseARPHdr_loop E kvs (arpHdr\<lparr>arp_SHA := sha\<rparr>))
      else if ToLower E k = ''spa'' then
        (case parseIPAddr E v of
           Panic \<Rightarrow> Panic
         | Err e \<Rightarrow> Err (Errorf ''parseIPAddr for spa returned: %v'' [ArgErr e])
         | Ok spa \<Rightarrow> parseARPHdr_loop E kvs (arpHdr\<lparr>arp_SPA := spa\<rparr>))
      else if ToLower E k = ''tha'' then
        (case parseMacAddr E v of
           Panic \<Rightarrow> Panic
         | Err e \<Rightarrow> Err (Errorf ''parseMacAddr for tha returned: %v'' [ArgErr e])
         | Ok tha \<Rightarrow> parseARPHdr_loop E kvs (arpHdr\<lparr>arp_THA := tha\<rparr>))
      else if ToLower E k = ''tpa'' then
        (case parseIPAddr E v of
           Panic \<Rightarrow> Panic
         | Err e \<Rightarrow> Err (Errorf ''parseIPAddr for tpa returned: %v'' [ArgErr e])
         | Ok tpa \<Rightarrow> parseARPHdr_loop E kvs (arpHdr\<lparr>arp_TPA := tpa\<rparr>))
      else Err (Errorf ''unrecognized key for arp configuration: %s'' [ArgStr k]))"

definition parseARPHdr :: "env \<Rightarrow> obj \<Rightarrow> ARPConfig result" where
  "parseARPHdr E in' = parseARPHdr_loop E in' ARPConfig_init"

definition IPConfig_init :: IPConfig where
  "IPConfig_init =
     \<lparr>ip_Version = 4, ip_SAddr = AddrRange_zero, ip_DAddr = AddrRange_zero,
      ip_DType = DataType_zero, ip_Data = None\<rparr>"

fun parseIPHdr_loop ::
  "env \<Rightarrow> obj \<Rightarrow> IPConfig \<Rightarrow> rng \<Rightarrow> (IPConfig \<times> rng) result" where
  "parseIPHdr_loop E [] ipHdr r = Ok (ipHdr, r)"
| "parseIPHdr_loop E ((k, v) # kvs) ipHdr r =
     (if ToLower E k = ''version'' then
        (case v of
           JNum f \<Rightarrow>
             (let version = to_int E f in
              if version \<noteq> 4 \<and> version \<noteq> 6 then
                Err (Errorf ''ip version should be 4 or 6, got: %d'' [ArgInt version])
              else parseIPHdr_loop E kvs (ipHdr\<lparr>ip_Version := version\<rparr>) r)
         | _ \<Rightarrow> Panic)
      else if ToLower E k = ''saddr'' then
        (case parseIPAddr E v of
           Panic \<Rightarrow> Panic
         | Err e \<Rightarrow> Err (Errorf ''parseIPAddr for ip saddr returned: %v'' [ArgErr e])
         | Ok saddr \<Rightarrow> parseIPHdr_loop E kvs (ipHdr\<lparr>ip_SAddr := saddr\<rparr>) r)
      else if ToLower E k = ''daddr'' then
        (case parseIPAddr E v of
           Panic \<Rightarrow> Panic
         | Err e \<Rightarrow> Err (Errorf ''parseIPAddr for ip daddr returned: %v'' [ArgErr e])
         | Ok daddr \<Rightarrow> parseIPHdr_loop E kvs (ipHdr\<lparr>ip_DAddr := daddr\<rparr>) r)
      else if ToLower E k = ''tcp'' then
        (case v of
           JObj m \<Rightarrow>
             (case parseTCPHdr E m r of
                Panic \<Rightarrow> Panic
              | Err e \<Rightarrow> Err (Errorf ''parseTCPHdr returned %v'' [ArgErr e])
              | Ok (tcpConf, r') \<Rightarrow>
                  parseIPHdr_loop E kvs
                    (ipHdr\<lparr>ip_Data := Some (IpTcp tcpConf), ip_DType := TCPHDR\<rparr>) r')
         | _ \<Rightarrow> Panic)
      else if ToLower E k = ''udp'' then
        (case v of
           JObj m \<Rightarrow>
             (case parseUDPHdr E m of
                Panic \<Rightarrow> Panic
              | Err e \<Rightarrow> Err (Errorf ''parseUDPHdr returned %v'' [ArgErr e])
              | Ok udpConf \<Rightarrow>
                  parseIPHdr_loop E kvs
                    (ipHdr\<lparr>ip_Data := Some (IpUdp udpConf), ip_DType := UDPHDR\<rparr>) r)
         | _ \<Rightarrow> Panic)
      else if ToLower E k = ''icmp'' then
        (case v of
           JObj m \<Rightarrow>
             (case parseICMPHdr E m r of
                Panic \<Rightarrow> Panic
              | Err e \<Rightarrow> Err (Errorf ''parseICMPHdr returned %v'' [ArgErr e])
              | Ok (icmpConf, r') \<Rightarrow>
                  parseIPHdr_loop E kvs
                    (ipHdr\<lparr>ip_Data := Some (IpIcmp icmpConf), ip_DType := ICMPHDR\<rparr>) r')
         | _ \<Rightarrow> Panic)
      else
        (case parseData E [(k, v)] of
           Panic \<Rightarrow> Panic
         | Err e \<Rightarrow> Err (Errorf ''parseData for ip returned: %v'' [ArgErr e])
         | Ok (data, dataType) \<Rightarrow>
             parseIPHdr_loop E kvs
               (ipHdr\<lparr>ip_Data := Some (IpPayload data), ip_DType := dataType\<rparr>) r))"

definition parseIPHdr :: "env \<Rightarrow> obj \<Rightarrow> rng \<Rightarrow> (IPConfig \<times> rng) result" where
  "parseIPHdr E in' r = parseIPHdr_loop E in' IPConfig_init r"

definition EtherConfig_init :: EtherConfig where
  "EtherConfig_init =
     \<lparr>eth_DAddr = AddrRange_zero, eth_SAddr = AddrRange_zero, eth_VLAN = None,
      eth_DType = NONE, eth_Data = None\<rparr>"

fun parseEtherHdr_loop ::
  "env \<Rightarrow> obj \<Rightarrow> EtherConfig \<Rightarrow> rng \<Rightarrow> (EtherConfig \<times> rng) result" where
  "parseEtherHdr_loop E [] ethConfig r = Ok (ethConfig, r)"
| "parseEtherHdr_loop E ((k, v) # kvs) ethConfig r =
     (if ToLower E k = ''saddr'' then
        (case parseMacAddr E v of
           Panic \<Rightarrow> Panic
         | Err e \<Rightarrow> Err (Errorf ''parseMacAddr for ether saddr returned: %v'' [ArgErr e])
         | Ok saddr \<Rightarrow> parseEtherHdr_loop E kvs (ethConfig\<lparr>eth_SAddr := saddr\<rparr>) r)
      else if ToLower E k = ''daddr'' then
        (case parseMacAddr E v of
           Panic \<Rightarrow> Panic
         | Err e \<Rightarrow> Err (Errorf ''parseMacAddr for ether daddr returned: %v'' [ArgErr e])
         | Ok daddr \<Rightarrow> parseEtherHdr_loop E kvs (ethConfig\<lparr>eth_DAddr := daddr\<rparr>) r)
      else if ToLower E k = ''vlan-tci'' then
        (case v of
           JNum f \<Rightarrow>
             parseEtherHdr_loop E kvs
               (ethConfig\<lparr>eth_VLAN := Some \<lparr>vlan_TCI = to_uint E f\<rparr>\<rparr>) r
         | _ \<Rightarrow> Panic)
      else if ToLower E k = ''ip'' then
        (case v of
           JObj m \<Rightarrow>
             (case parseIPHdr E m r of
                Panic \<Rightarrow> Panic
              | Err e \<Rightarrow> Err (Errorf ''parseIpHdr returned %v'' [ArgErr e])
              | Ok (ipConf, r') \<Rightarrow>
                  parseEtherHdr_loop E kvs
                    (ethConfig\<lparr>eth_Data := Some (EthIp ipConf), eth_DType := IPHDR\<rparr>) r')
         | _ \<Rightarrow> Panic)
      else if ToLower E k = ''arp'' then
        (case v of
           JObj arpConfig \<Rightarrow>
             (case parseARPHdr E arpConfig of
                Panic \<Rightarrow> Panic
              | Err e \<Rightarrow> Err (Errorf ''parseARPHdr returned %v'' [ArgErr e])
              | Ok arpConf \<Rightarrow>
                  parseEtherHdr_loop E kvs
                    (ethConfig\<lparr>eth_Data := Some (EthArp arpConf), eth_DType := ARPHDR\<rparr>) r)
         | _ \<Rightarrow> Panic)
      else
        (case parseData E [(k, v)] of
           Panic \<Rightarrow> Panic
         | Err e \<Rightarrow> Err (Errorf ''parseData for ether returned: %v'' [ArgErr e])
         | Ok (data, dataType) \<Rightarrow>
             parseEtherHdr_loop E kvs
               (ethConfig\<lparr>eth_Data := Some (EthPayload data), eth_DType := dataType\<rparr>) r))"

definition parseEtherHdr :: "env \<Rightarrow> obj \<Rightarrow> rng \<Rightarrow> (EtherConfig \<times> rng) result" where
  "parseEtherHdr E in' r = parseEtherHdr_loop E in' EtherConfig_init r"

section \<open>The top level\<close>

text \<open>
  \<^verbatim>\<open>ParseConfig\<close> and \<^verbatim>\<open>ParseMixConfig\<close> return a pair
  \<^verbatim>\<open>(config []*MixConfig, err error)\<close>; \<open>Returned config err\<close> is that pair, with
  \<open>[]\<close> for a \<^verbatim>\<open>nil\<close> slice and \<open>None\<close> for a \<^verbatim>\<open>nil\<close> error.
\<close>

datatype ret = Panicked | Returned "MixConfig list" "error option"

text \<open>The inner loop of \<^verbatim>\<open>ParseMixConfig\<close> over one mix unit, with the variables
  \<^verbatim>\<open>pktConfig\<close> and \<^verbatim>\<open>q\<close>. \<open>Err e\<close> is \<^verbatim>\<open>return nil, e\<close>. The error of the
  default case prints the key \<open>k\<close> of the outer loop.\<close>

fun mixUnit_loop ::
  "env \<Rightarrow> string \<Rightarrow> obj \<Rightarrow> PacketConfig option \<Rightarrow> 32 word \<Rightarrow> rng
     \<Rightarrow> (PacketConfig option \<times> 32 word \<times> rng) result" where
  "mixUnit_loop E k [] pktConfig q r = Ok (pktConfig, q, r)"
| "mixUnit_loop E k ((kk, vv) # rest) pktConfig q r =
     (if ToLower E kk = ''ether'' then
        (case vv of
           JObj etherConfig \<Rightarrow>
             (case parseEtherHdr E etherConfig r of
                Panic \<Rightarrow> Panic
              | Err e \<Rightarrow> Err (Errorf ''parseEtherHdr returned: %v'' [ArgErr e])
              | Ok (ethHdr, r') \<Rightarrow>
                  mixUnit_loop E k rest (Some \<lparr>pc_DType = ETHERHDR, pc_Data = ethHdr\<rparr>) q r')
         | _ \<Rightarrow> Panic)
      else if ToLower E kk = ''quantity'' \<or> ToLower E kk = ''q'' then
        (case vv of
           JNum f \<Rightarrow> mixUnit_loop E k rest pktConfig (to_uint E f) r
         | _ \<Rightarrow> Panic)
      else
        Err (Errorf ''unexpected key: %s, expected ether and quantity or q'' [ArgStr k]))"

fun ParseMixConfig_loop :: "env \<Rightarrow> obj \<Rightarrow> MixConfig list \<Rightarrow> rng \<Rightarrow> ret" where
  "ParseMixConfig_loop E [] config r = Returned config None"
| "ParseMixConfig_loop E ((k, v) # kvs) config r =
     (if mixPattern_MatchString (ToLower E k) then
        (case v of
           JObj mixUnit \<Rightarrow>
             (case mixUnit_loop E k mixUnit None 0 r of
                Panic \<Rightarrow> Panicked
              | Err e \<Rightarrow> Returned [] (Some e)
              | Ok (pktConfig, q, r') \<Rightarrow>
                  (case pktConfig of
                     None \<Rightarrow> Returned [] (Some (Errorf ''some fields were not set'' []))
                   | Some pc \<Rightarrow>
                       if q = 0 then
                         Returned [] (Some (Errorf ''some fields were not set'' []))
                       else
                         ParseMixConfig_loop E kvs
                           (config @ [\<lparr>mc_Config = pc, mc_Quantity = q\<rparr>]) r'))
         | _ \<Rightarrow> Panicked)
      else Returned [] (Some (Errorf ''unexpected key: %s, expected mix[0-9]*'' [ArgStr k])))"

definition ParseMixConfig :: "env \<Rightarrow> obj \<Rightarrow> rng \<Rightarrow> ret" where
  "ParseMixConfig E in' r = ParseMixConfig_loop E in' [] r"

text \<open>
  What the decoder leaves in \<^verbatim>\<open>in\<close>: an error, or the top-level map in the order in
  which the loop of \<^verbatim>\<open>ParseConfig\<close> visits it (a top-level \<^verbatim>\<open>null\<close> leaves the
  \<^verbatim>\<open>nil\<close> map, which is visited like the empty one).
\<close>

datatype decoded = DecodeFails | Decodes obj

text \<open>
  Every branch of the switch returns, so the loop of \<^verbatim>\<open>ParseConfig\<close> looks at the
  first visited key only. \<^verbatim>\<open>ParseMixConfig(in)\<close> then visits the same map in an order
  of its own: \<open>in2\<close> is the map in that second order.
\<close>

definition ParseConfig :: "env \<Rightarrow> decoded \<Rightarrow> obj \<Rightarrow> rng \<Rightarrow> ret" where
  "ParseConfig E f in2 r =
     (case f of
        DecodeFails \<Rightarrow>
          Returned [] (Some (Errorf ''decoding input from file returned: %v'' [ArgErr LibError]))
      | Decodes [] \<Rightarrow> Returned [] (Some (Errorf ''expected 'ether' key , but did not get'' []))
      | Decodes ((k, v) # kvs) \<Rightarrow>
          (let key = ToLower E k in
           if key = ''ether'' then
             (case v of
                JObj etherConfig \<Rightarrow>
                  (case parseEtherHdr E etherConfig r of
                     Panic \<Rightarrow> Panicked
                   | Err e \<Rightarrow> Returned [] (Some (Errorf ''parseEtherHdr returned: %v'' [ArgErr e]))
                   | Ok (ethHdr, r') \<Rightarrow>
                       Returned
                         ([] @ [\<lparr>mc_Config = \<lparr>pc_DType = ETHERHDR, pc_Data = ethHdr\<rparr>,
                                 mc_Quantity = 1\<rparr>])
                         None)
              | _ \<Rightarrow> Panicked)
           else if mixPattern_MatchString key then ParseMixConfig E in2 r
           else
             Returned []
               (Some (Errorf ''unexpected key: %s, expected mix[0-9]* or ether'' [ArgStr k]))))"

section \<open>Vocabulary of the properties\<close>

text \<open>A key matches the compiled pattern after lowering, as both top-level loops test
  it.\<close>

definition is_mix :: "env \<Rightarrow> string \<Rightarrow> bool" where
  "is_mix E k = mixPattern_MatchString (ToLower E k)"

text \<open>A top-level key that is neither \<^verbatim>\<open>ether\<close> (case-insensitively) nor matches
  \<^verbatim>\<open>mix[0-9]*\<close>.\<close>

definition unrecognized :: "env \<Rightarrow> string \<Rightarrow> bool" where
  "unrecognized E k = (ToLower E k \<noteq> ''ether'' \<and> \<not> is_mix E k)"

text \<open>A mapping has a key that lowers to one of the given names.\<close>

definition has_key :: "env \<Rightarrow> string list \<Rightarrow> obj \<Rightarrow> bool" where
  "has_key E names in' = list_ex (\<lambda>(k, v). ToLower E k \<in> set names) in'"

text \<open>The quantity field of a mix unit is absent or zero: every value under
  \<^verbatim>\<open>quantity\<close> or \<^verbatim>\<open>q\<close>, if there is one, is the number 0.\<close>

definition quantity_absent_or_zero :: "env \<Rightarrow> obj \<Rightarrow> bool" where
  "quantity_absent_or_zero E unit =
     list_all (\<lambda>(kk, vv). ToLower E kk \<in> set [''quantity'', ''q''] \<longrightarrow> vv = JNum 0) unit"

text \<open>
  An environment and a generator state to evaluate examples with. The examples use
  ASCII keys, MAC addresses in colon form and numbers that their target types represent, so they do
  not depend on the choices made here.
\<close>

definition env0 :: env where
  "env0 =
     \<lparr>unicode_ToLower = (\<lambda>s. s), net_ParseIP = (\<lambda>s. None),
      net_ParseMAC_other = (\<lambda>s. None), conv_overflow = (\<lambda>w f. 0)\<rparr>"

definition rng0 :: rng where
  "rng0 = (\<lambda>n. 0)"

text \<open>Example documents, each in one visiting order.\<close>

definition doc_second_unit_without_quantity :: obj where
  "doc_second_unit_without_quantity =
     [(''mix1'', JObj [(''ether'', JObj []), (''q'', JNum 3)]),
      (''mix3'', JObj [(''ether'', JObj [])])]"

definition doc_empty_unit_then_unknown :: obj where
  "doc_empty_unit_then_unknown = [(''mix1'', JObj []), (''foo'', JNum 1)]"

definition doc_unit_then_unknown :: obj where
  "doc_unit_then_unknown =
     [(''mix1'', JObj [(''ether'', JObj []), (''q'', JNum 3)]), (''foo'', JNum 1)]"

definition doc_unit_with_count :: obj where
  "doc_unit_with_count = [(''mix1'', JObj [(''count'', JNum 5), (''ether'', JObj [])])]"

text \<open>The flag bit that corresponds to a lowered token, \<open>None\<close> when the token is not
  one of the eight names.\<close>

definition flag_bit :: "string \<Rightarrow> 8 word option" where
  "flag_bit s =
     (if s = ''fin'' then Some TCPFlagFin
      else if s = ''syn'' then Some TCPFlagSyn
      else if s = ''rst'' then Some TCPFlagRst
      else if s = ''psh'' then Some TCPFlagPsh
      else if s = ''ack'' then Some TCPFlagAck
      else if s = ''urg'' then Some TCPFlagUrg
      else if s = ''ece'' then Some TCPFlagEce
      else if s = ''cwr'' then Some TCPFlagCwr
      else None)"

text \<open>The exclusive or of a list of flag bytes.\<close>

primrec xor_all :: "8 word list \<Rightarrow> 8 word" where
  "xor_all [] = 0"
| "xor_all (b # bs) = b XOR xor_all bs"

text \<open>The keys under which a header takes a child: a nested protocol, or a payload.\<close>

definition nested_protocol_keys :: "string list" where
  "nested_protocol_keys = [''ip'', ''arp'', ''tcp'', ''udp'', ''icmp'']"

definition payload_keys :: "string list" where
  "payload_keys = [''raw'', ''randbytes'', ''pdist'']"

text \<open>
  The document
  \<^verbatim>\<open>{"ether": {"daddr":"ff:ff:ff:ff:ff:ff","ip":{"version":4,"tcp":{"dport":80}}}}\<close>.
  The ether block and the ip block have two keys each; \<open>swap\<close> and \<open>swap'\<close> choose the
  order in which their loops visit them. \<open>c3_entry\<close> is the MixConfig entry the document
  stands for.
\<close>

definition c3_ip_block :: "bool \<Rightarrow> json" where
  "c3_ip_block swap =
     JObj (if swap then [(''tcp'', JObj [(''dport'', JNum 80)]), (''version'', JNum 4)]
           else [(''version'', JNum 4), (''tcp'', JObj [(''dport'', JNum 80)])])"

definition c3_ether_block :: "bool \<Rightarrow> bool \<Rightarrow> json" where
  "c3_ether_block swap swap' =
     JObj (if swap then [(''ip'', c3_ip_block swap'), (''daddr'', JStr ''ff:ff:ff:ff:ff:ff'')]
           else [(''daddr'', JStr ''ff:ff:ff:ff:ff:ff''), (''ip'', c3_ip_block swap')])"

definition c3_document :: "bool \<Rightarrow> bool \<Rightarrow> obj" where
  "c3_document swap swap' = [(''ether'', c3_ether_block swap swap')]"

definition c3_tcp :: TCPConfig where
  "c3_tcp =
     \<lparr>tcp_SPort = \<lparr>pr_Min = 0, pr_Max = 0, pr_Current = 0, pr_Incr = 0\<rparr>,
      tcp_DPort = \<lparr>pr_Min = 80, pr_Max = 80, pr_Current = 80, pr_Incr = 0\<rparr>,
      tcp_Seq = \<lparr>seq_Type = RANDOM, seq_Next = 0\<rparr>,
      tcp_Flags = 0, tcp_DType = ETHERHDR, tcp_Data = None\<rparr>"

definition c3_ip :: IPConfig where
  "c3_ip =
     \<lparr>ip_Version = 4, ip_SAddr = AddrRange_zero, ip_DAddr = AddrRange_zero,
      ip_DType = TCPHDR, ip_Data = Some (IpTcp c3_tcp)\<rparr>"

definition c3_ether :: EtherConfig where
  "c3_ether =
     \<lparr>eth_DAddr =
        \<lparr>ar_Min = [255, 255, 255, 255, 255, 255], ar_Max = [255, 255, 255, 255, 255, 255],
         ar_Current = [255, 255, 255, 255, 255, 255], ar_Incr = []\<rparr>,
      eth_SAddr = AddrRange_zero, eth_VLAN = None,
      eth_DType = IPHDR, eth_Data = Some (EthIp c3_ip)\<rparr>"

definition c3_entry :: MixConfig where
  "c3_entry = \<lparr>mc_Config = \<lparr>pc_DType = ETHERHDR, pc_Data = c3_ether\<rparr>, mc_Quantity = 1\<rparr>"

text \<open>
  An address-range block, read the way the loop of \<^verbatim>\<open>parseAddrRange\<close> reads it:
  \<open>addr_field\<close> is the decoded address under a key (when keys differ only in case, the
  one visited last), \<open>incr_field\<close> the number under \<^verbatim>\<open>incr\<close>. In a \<open>range_block\<close>
  every key is one of \<^verbatim>\<open>min\<close>, \<^verbatim>\<open>max\<close>, \<^verbatim>\<open>start\<close>, \<^verbatim>\<open>incr\<close>, every address is
  a string that the decoder accepts and every increment is a number.
\<close>

fun addr_field :: "env \<Rightarrow> fn \<Rightarrow> string \<Rightarrow> obj \<Rightarrow> byte list option" where
  "addr_field E parseFunc name [] = None"
| "addr_field E parseFunc name ((k, v) # kvs) =
     (case addr_field E parseFunc name kvs of
        Some bs \<Rightarrow> Some bs
      | None \<Rightarrow>
          if ToLower E k = name then
            (case v of
               JStr s \<Rightarrow> (case parseFunc s of Ok bs \<Rightarrow> Some bs | _ \<Rightarrow> None)
             | _ \<Rightarrow> None)
          else None)"

fun incr_field :: "env \<Rightarrow> obj \<Rightarrow> rat option" where
  "incr_field E [] = None"
| "incr_field E ((k, v) # kvs) =
     (case incr_field E kvs of
        Some f \<Rightarrow> Some f
      | None \<Rightarrow>
          if ToLower E k = ''incr'' then (case v of JNum f \<Rightarrow> Some f | _ \<Rightarrow> None)
          else None)"

definition range_entry :: "env \<Rightarrow> fn \<Rightarrow> string \<times> json \<Rightarrow> bool" where
  "range_entry E parseFunc kv =
     (case kv of (k, v) \<Rightarrow>
        if ToLower E k = ''min'' \<or> ToLower E k = ''max'' \<or> ToLower E k = ''start'' then
          (case v of
             JStr s \<Rightarrow> (case parseFunc s of Ok bs \<Rightarrow> True | _ \<Rightarrow> False)
           | _ \<Rightarrow> False)
        else ToLower E k = ''incr'' \<and> (case v of JNum f \<Rightarrow> True | _ \<Rightarrow> False))"

definition range_block :: "env \<Rightarrow> fn \<Rightarrow> obj \<Rightarrow> bool" where
  "range_block E parseFunc in' = list_all (range_entry E parseFunc) in'"

text \<open>Example blocks of MAC ranges.\<close>

definition block_min_max_step :: obj where
  "block_min_max_step =
     [(''min'', JStr ''00:00:00:00:00:01''), (''max'', JStr ''00:00:00:00:00:0f''),
      (''step'', JNum 2)]"

definition block_full :: obj where
  "block_full =
     [(''Min'', JStr ''00:00:00:00:00:01''), (''incr'', JNum 2),
      (''start'', JStr ''00:00:00:00:00:05''), (''max'', JStr ''00:00:00:00:00:0f'')]"







section \<open>Evaluation on ASCII text\<close>

lemmas eval_simps =
  ToLower_def lower_byte_def char_of_eq_iff mixPattern_MatchString_def is_digit_def
  is_mix_def unrecognized_def has_key_def

section \<open>The top level returns no partial result\<close>

lemma ParseMixConfig_loop_error_nil:
  "ParseMixConfig_loop E kvs acc r = Returned config (Some e) \<Longrightarrow> config = []"
  by (induction kvs arbitrary: acc r)
     (auto split: if_splits json.splits result.splits option.splits)

lemma ParseMixConfig_error_nil:
  "ParseMixConfig E in' r = Returned config (Some e) \<Longrightarrow> config = []"
  unfolding ParseMixConfig_def by (rule ParseMixConfig_loop_error_nil)

lemma ParseConfig_error_nil:
  "ParseConfig E f in2 r = Returned config (Some e) \<Longrightarrow> config = []"
  by (auto simp: ParseConfig_def Let_def dest: ParseMixConfig_error_nil
      split: decoded.splits list.splits if_splits json.splits result.splits)

lemma not_success_cases:
  "(\<And>c. x \<noteq> Returned c None) \<Longrightarrow> (\<And>c e. x = Returned c (Some e) \<Longrightarrow> c = []) \<Longrightarrow>
   x = Panicked \<or> (\<exists>e. x = Returned [] (Some e))"
  by (cases x) auto

text \<open>
  C1. Whenever \<^verbatim>\<open>ParseConfig\<close> or \<^verbatim>\<open>ParseMixConfig\<close> returns an error, the
  collection it returns with it is \<^verbatim>\<open>nil\<close>, whatever the document, the visiting
  orders and the entries built from mix units visited before the failure.
\<close>

theorem parse_error_returns_nil:
  "(ParseConfig E f in2 r = Returned config (Some e) \<longrightarrow> config = [])
   \<and> (ParseMixConfig E in' r' = Returned config' (Some e') \<longrightarrow> config' = [])"
  using ParseConfig_error_nil ParseMixConfig_error_nil by blast

text \<open>The first unit is complete and would give an entry; the second has no quantity.\<close>

theorem parse_error_returns_nil_witness:
  "ParseMixConfig env0 doc_second_unit_without_quantity rng0 =
     Returned [] (Some (Errorf ''some fields were not set'' []))
   \<and> ParseConfig env0 (Decodes doc_second_unit_without_quantity)
        doc_second_unit_without_quantity rng0 =
     Returned [] (Some (Errorf ''some fields were not set'' []))"
proof -
  have "\<exists>c. ParseMixConfig env0 doc_second_unit_without_quantity rng0 =
          Returned c (Some (Errorf ''some fields were not set'' []))"
    by (simp add: ParseMixConfig_def doc_second_unit_without_quantity_def parseEtherHdr_def
          eval_simps to_uint_def trunc_def)
  moreover have "\<exists>c. ParseConfig env0 (Decodes doc_second_unit_without_quantity)
          doc_second_unit_without_quantity rng0 =
          Returned c (Some (Errorf ''some fields were not set'' []))"
    by (simp add: ParseConfig_def ParseMixConfig_def doc_second_unit_without_quantity_def
          parseEtherHdr_def eval_simps to_uint_def trunc_def)
  ultimately show ?thesis
    using parse_error_returns_nil by blast
qed

section \<open>Unrecognized top-level keys\<close>

lemma ParseMixConfig_loop_nonmix:
  "list_ex (\<lambda>(k, v). \<not> is_mix E k) kvs \<Longrightarrow>
   ParseMixConfig_loop E kvs acc r \<noteq> Returned config None"
  by (induction kvs arbitrary: acc r)
     (auto simp: is_mix_def split: if_splits json.splits result.splits option.splits)

lemma ParseMixConfig_loop_first_nonmix:
  "ParseMixConfig_loop E pre acc r = Returned cfg None \<Longrightarrow>
   \<not> is_mix E k \<Longrightarrow>
   ParseMixConfig_loop E (pre @ (k, v) # post) acc r =
     Returned [] (Some (Errorf ''unexpected key: %s, expected mix[0-9]*'' [ArgStr k]))"
  by (induction pre arbitrary: acc r)
     (auto simp: is_mix_def split: if_splits json.splits result.splits option.splits)

text \<open>When the first visited key is \<^verbatim>\<open>ether\<close>, \<^verbatim>\<open>ParseConfig\<close> returns from its first
  iteration: no other key of the document is looked at.\<close>

lemma ParseConfig_ether_first:
  "ToLower E k = ''ether'' \<Longrightarrow>
   ParseConfig E (Decodes ((k, v) # rest)) in2 r = ParseConfig E (Decodes [(k, v)]) in2' r"
  by (simp add: ParseConfig_def Let_def)

lemma ParseConfig_ether_first_example:
  "ParseConfig env0 (Decodes [(''ether'', JObj []), (''foo'', JNum 1)]) in2 rng0 =
     Returned [\<lparr>mc_Config = \<lparr>pc_DType = ETHERHDR, pc_Data = EtherConfig_init\<rparr>,
                mc_Quantity = 1\<rparr>] None"
  by (simp add: ParseConfig_def parseEtherHdr_def eval_simps)

text \<open>
  C2, as amended. Let the document have a key that is neither \<^verbatim>\<open>ether\<close> nor matches
  \<^verbatim>\<open>mix[0-9]*\<close>, and let the first key that \<^verbatim>\<open>ParseConfig\<close> visits not be
  \<^verbatim>\<open>ether\<close>. Then \<^verbatim>\<open>ParseConfig\<close> never returns a MixConfig: it returns \<^verbatim>\<open>nil\<close>
  with an error, or panics on a value of the wrong type. The error is the unexpected-key
  error of \<^verbatim>\<open>ParseConfig\<close> when the first visited key is itself unrecognized, and the
  unexpected-key error of \<^verbatim>\<open>ParseMixConfig\<close> for the first key outside the pattern
  that its loop visits when every mix unit visited before it is complete.
\<close>

theorem ParseConfig_unrecognized_key:
  assumes "list_ex (\<lambda>(k, v). unrecognized E k) in'"
      and "set in2 = set in'"
      and "in' = (k0, v0) # rest"
      and "ToLower E k0 \<noteq> ''ether''"
  shows "(ParseConfig E (Decodes in') in2 r = Panicked
          \<or> (\<exists>e. ParseConfig E (Decodes in') in2 r = Returned [] (Some e)))
       \<and> (unrecognized E k0 \<longrightarrow>
            ParseConfig E (Decodes in') in2 r =
              Returned []
                (Some (Errorf ''unexpected key: %s, expected mix[0-9]* or ether'' [ArgStr k0])))
       \<and> (\<forall>pre k v post cfg.
            is_mix E k0 \<and> in2 = pre @ (k, v) # post \<and> \<not> is_mix E k
            \<and> ParseMixConfig E pre r = Returned cfg None \<longrightarrow>
            ParseConfig E (Decodes in') in2 r =
              Returned [] (Some (Errorf ''unexpected key: %s, expected mix[0-9]*'' [ArgStr k])))"
proof (intro conjI allI impI)
  have nonmix: "list_ex (\<lambda>(k, v). \<not> is_mix E k) in2"
    using assms(1,2) by (auto simp: list_ex_iff unrecognized_def)
  have "\<And>c. ParseConfig E (Decodes in') in2 r \<noteq> Returned c None"
    using assms(3,4) ParseMixConfig_loop_nonmix[OF nonmix, of "[]" r]
    by (auto simp: ParseConfig_def ParseMixConfig_def Let_def)
  then show "ParseConfig E (Decodes in') in2 r = Panicked
          \<or> (\<exists>e. ParseConfig E (Decodes in') in2 r = Returned [] (Some e))"
    by (rule not_success_cases) (rule ParseConfig_error_nil)
next
  assume "unrecognized E k0"
  then show "ParseConfig E (Decodes in') in2 r =
      Returned [] (Some (Errorf ''unexpected key: %s, expected mix[0-9]* or ether'' [ArgStr k0]))"
    using assms(3) by (simp add: ParseConfig_def Let_def unrecognized_def is_mix_def)
next
  fix pre k v post cfg
  assume h: "is_mix E k0 \<and> in2 = pre @ (k, v) # post \<and> \<not> is_mix E k
            \<and> ParseMixConfig E pre r = Returned cfg None"
  then have "ParseMixConfig E in2 r =
      Returned [] (Some (Errorf ''unexpected key: %s, expected mix[0-9]*'' [ArgStr k]))"
    using ParseMixConfig_loop_first_nonmix[of E pre "[]" r cfg k v post]
    by (simp add: ParseMixConfig_def)
  then show "ParseConfig E (Decodes in') in2 r =
      Returned [] (Some (Errorf ''unexpected key: %s, expected mix[0-9]*'' [ArgStr k]))"
    using assms(3,4) h by (simp add: ParseConfig_def Let_def is_mix_def)
qed

text \<open>A complete unit is visited first, then the key \<^verbatim>\<open>foo\<close>.\<close>

theorem ParseConfig_unrecognized_key_witness:
  "list_ex (\<lambda>(k, v). unrecognized env0 k) doc_unit_then_unknown
   \<and> ParseConfig env0 (Decodes doc_unit_then_unknown) doc_unit_then_unknown rng0 =
       Returned [] (Some (Errorf ''unexpected key: %s, expected mix[0-9]*'' [ArgStr ''foo'']))"
proof -
  have u: "list_ex (\<lambda>(k, v). unrecognized env0 k) doc_unit_then_unknown"
    by (simp add: doc_unit_then_unknown_def eval_simps)
  have d: "doc_unit_then_unknown =
      (''mix1'', JObj [(''ether'', JObj []), (''q'', JNum 3)]) # [(''foo'', JNum 1)]"
    by (simp add: doc_unit_then_unknown_def)
  have l: "ToLower env0 ''mix1'' \<noteq> ''ether''"
    by (simp add: eval_simps)
  have p: "is_mix env0 ''mix1'' \<and>
      doc_unit_then_unknown =
        [(''mix1'', JObj [(''ether'', JObj []), (''q'', JNum 3)])] @ (''foo'', JNum 1) # []
      \<and> \<not> is_mix env0 ''foo''
      \<and> ParseMixConfig env0 [(''mix1'', JObj [(''ether'', JObj []), (''q'', JNum 3)])] rng0 =
          Returned [\<lparr>mc_Config = \<lparr>pc_DType = ETHERHDR, pc_Data = EtherConfig_init\<rparr>,
                     mc_Quantity = 3\<rparr>] None"
    by (simp add: doc_unit_then_unknown_def ParseMixConfig_def parseEtherHdr_def eval_simps
          to_uint_def trunc_def)
  from ParseConfig_unrecognized_key[OF u refl d l, of rng0] p u show ?thesis
    by blast
qed

text \<open>
  C2 as stated fails: the document has the unrecognized key \<^verbatim>\<open>foo\<close>, yet the error
  returned is the one for the incomplete unit \<^verbatim>\<open>mix1\<close>, which the loop of
  \<^verbatim>\<open>ParseMixConfig\<close> visits first.
\<close>

theorem ParseConfig_unrecognized_key_counterexample:
  "list_ex (\<lambda>(k, v). unrecognized env0 k) doc_empty_unit_then_unknown
   \<and> ParseConfig env0 (Decodes doc_empty_unit_then_unknown) doc_empty_unit_then_unknown rng0 =
       Returned [] (Some (Errorf ''some fields were not set'' []))"
  by (simp add: doc_empty_unit_then_unknown_def ParseConfig_def ParseMixConfig_def eval_simps)

section \<open>Incomplete mix units\<close>

lemma mixUnit_loop_keeps:
  "mixUnit_loop E k unit pc q r = Ok (pc', q', r') \<Longrightarrow>
   (\<not> has_key E [''ether''] unit \<longrightarrow> pc' = pc) \<and>
   (quantity_absent_or_zero E unit \<longrightarrow> q = 0 \<longrightarrow> q' = 0)"
  by (induction unit arbitrary: pc q r)
     (auto simp: to_uint_def trunc_def has_key_def quantity_absent_or_zero_def
           split: if_splits json.splits result.splits)

lemma mix_entry_fails:
  assumes "is_mix E k" and "\<not> has_key E [''ether''] unit \<or> quantity_absent_or_zero E unit"
    and "mixUnit_loop E k unit None 0 r = Ok st"
  shows "ParseMixConfig_loop E ((k, JObj unit) # post) acc r =
           Returned [] (Some (Errorf ''some fields were not set'' []))"
proof -
  obtain pc' q' r' where st: "st = (pc', q', r')" by (cases st)
  from mixUnit_loop_keeps[OF assms(3)[unfolded st]] assms(2)
  have "pc' = None \<or> q' = 0" by auto
  then show ?thesis using assms(1,3) st
    by (auto simp: is_mix_def split: option.splits)
qed

lemma mix_entry_not_success:
  assumes "is_mix E k" and "\<not> has_key E [''ether''] unit \<or> quantity_absent_or_zero E unit"
  shows "ParseMixConfig_loop E ((k, JObj unit) # post) acc r \<noteq> Returned c None"
proof (cases "mixUnit_loop E k unit None 0 r")
  case (Ok st)
  from mix_entry_fails[OF assms Ok] show ?thesis by simp
qed (use assms(1) in \<open>auto simp: is_mix_def\<close>)

lemma ParseMixConfig_loop_deficient:
  assumes "is_mix E k" and "\<not> has_key E [''ether''] unit \<or> quantity_absent_or_zero E unit"
  shows "ParseMixConfig_loop E (pre @ (k, JObj unit) # post) acc r \<noteq> Returned c None"
proof (induction pre arbitrary: acc r)
  case Nil
  show ?case using mix_entry_not_success[OF assms] by simp
next
  case (Cons a pre)
  show ?case
    using Cons.IH by (cases a) (auto split: if_splits json.splits result.splits option.splits)
qed

text \<open>
  C6, as amended. Let a document have, under a key matching \<^verbatim>\<open>mix[0-9]*\<close>, a mapping
  with no \<^verbatim>\<open>ether\<close> key, or whose quantity is absent or zero. Then
  \<^verbatim>\<open>ParseMixConfig\<close> never returns a MixConfig for the document: it returns \<^verbatim>\<open>nil\<close>
  with an error, or panics. When the loop reaches that unit, with whatever \<open>config\<close>
  the units before it have built, and the visit of the unit's own keys completes (each
  key is \<^verbatim>\<open>ether\<close>, \<^verbatim>\<open>quantity\<close> or \<^verbatim>\<open>q\<close> with a value of the right type, and the
  ether block parses), the error is "some fields were not set".
\<close>

theorem ParseMixConfig_missing_field:
  assumes "is_mix E k"
      and "\<not> has_key E [''ether''] unit \<or> quantity_absent_or_zero E unit"
  shows "(ParseMixConfig E (pre @ (k, JObj unit) # post) r = Panicked
          \<or> (\<exists>e. ParseMixConfig E (pre @ (k, JObj unit) # post) r = Returned [] (Some e)))
       \<and> ((\<exists>st. mixUnit_loop E k unit None 0 r' = Ok st) \<longrightarrow>
            ParseMixConfig_loop E ((k, JObj unit) # post) config r' =
              Returned [] (Some (Errorf ''some fields were not set'' [])))"
proof (intro conjI impI)
  have "\<And>c. ParseMixConfig E (pre @ (k, JObj unit) # post) r \<noteq> Returned c None"
    unfolding ParseMixConfig_def by (rule ParseMixConfig_loop_deficient[OF assms])
  then show "ParseMixConfig E (pre @ (k, JObj unit) # post) r = Panicked
          \<or> (\<exists>e. ParseMixConfig E (pre @ (k, JObj unit) # post) r = Returned [] (Some e))"
    by (rule not_success_cases) (rule ParseMixConfig_error_nil)
next
  assume "\<exists>st. mixUnit_loop E k unit None 0 r' = Ok st"
  then obtain st where "mixUnit_loop E k unit None 0 r' = Ok st" ..
  from mix_entry_fails[OF assms this]
  show "ParseMixConfig_loop E ((k, JObj unit) # post) config r' =
          Returned [] (Some (Errorf ''some fields were not set'' []))" .
qed

text \<open>The unit \<^verbatim>\<open>mix3\<close> has an ether block and no quantity; \<^verbatim>\<open>mix1\<close> before it is
  complete.\<close>

theorem ParseMixConfig_missing_field_witness:
  "is_mix env0 ''mix3''
   \<and> quantity_absent_or_zero env0 [(''ether'', JObj [])]
   \<and> mixUnit_loop env0 ''mix3'' [(''ether'', JObj [])] None 0 rng0 =
       Ok (Some \<lparr>pc_DType = ETHERHDR, pc_Data = EtherConfig_init\<rparr>, 0, rng0)
   \<and> ParseMixConfig env0 doc_second_unit_without_quantity rng0 =
       Returned [] (Some (Errorf ''some fields were not set'' []))"
proof -
  have m: "is_mix env0 ''mix3''"
    by (simp add: eval_simps)
  have q: "\<not> has_key env0 [''ether''] [(''ether'', JObj [])]
           \<or> quantity_absent_or_zero env0 [(''ether'', JObj [])]"
    by (simp add: quantity_absent_or_zero_def eval_simps)
  have u: "mixUnit_loop env0 ''mix3'' [(''ether'', JObj [])] None 0 rng0 =
       Ok (Some \<lparr>pc_DType = ETHERHDR, pc_Data = EtherConfig_init\<rparr>, 0, rng0)"
    by (simp add: parseEtherHdr_def eval_simps)
  have d: "doc_second_unit_without_quantity =
       [(''mix1'', JObj [(''ether'', JObj []), (''q'', JNum 3)])]
         @ (''mix3'', JObj [(''ether'', JObj [])]) # []"
    by (simp add: doc_second_unit_without_quantity_def)
  have "ParseMixConfig env0 doc_second_unit_without_quantity rng0 =
       Returned [] (Some (Errorf ''some fields were not set'' []))"
    by (simp add: ParseMixConfig_def doc_second_unit_without_quantity_def parseEtherHdr_def
          eval_simps to_uint_def trunc_def)
  with ParseMixConfig_missing_field[OF m q,
      where pre = "[(''mix1'', JObj [(''ether'', JObj []), (''q'', JNum 3)])]"
        and post = "[]" and r = rng0 and r' = rng0 and config = "[]"] m q u show ?thesis
    by (simp add: quantity_absent_or_zero_def eval_simps)
qed

text \<open>
  C6 as stated fails: the unit has no quantity (it spells the field \<^verbatim>\<open>count\<close>), and
  the error returned is the unexpected-key error, not the one for a missing field.
\<close>

theorem ParseMixConfig_missing_field_counterexample:
  "is_mix env0 ''mix1''
   \<and> quantity_absent_or_zero env0 [(''count'', JNum 5), (''ether'', JObj [])]
   \<and> ParseMixConfig env0 doc_unit_with_count rng0 =
       Returned []
         (Some (Errorf ''unexpected key: %s, expected ether and quantity or q'' [ArgStr ''mix1'']))"
  by (simp add: doc_unit_with_count_def ParseMixConfig_def quantity_absent_or_zero_def eval_simps)

section \<open>Random-bytes payloads\<close>

lemma parseRandBytes_loop_filter:
  "parseRandBytes_loop E in' rb =
   parseRandBytes_loop E
     (filter (\<lambda>(k, v). ToLower E k = ''size'' \<or> ToLower E k = ''deviation'') in') rb"
  by (induction in' arbitrary: rb) (auto split: json.splits if_splits)

lemma parseRandBytes_loop_no_size:
  "\<not> has_key E [''size''] in' \<Longrightarrow> parseRandBytes_loop E in' rb = Ok rb' \<Longrightarrow>
   rb_Size rb' = rb_Size rb"
  by (induction in' arbitrary: rb) (auto simp: has_key_def split: json.splits if_splits)

lemma parseRandBytes_loop_no_keys:
  "\<not> has_key E [''size'', ''deviation''] in' \<Longrightarrow> parseRandBytes_loop E in' rb = Ok rb"
  by (induction in' arbitrary: rb) (auto simp: has_key_def split: json.splits if_splits)

lemma parseRandBytes_loop_no_size_err:
  "\<not> has_key E [''size''] in' \<Longrightarrow> parseRandBytes_loop E in' rb = Err e \<Longrightarrow>
   \<exists>f. f < 0 \<and> e = Errorf ''invalid deviation value, should be positive: %f'' [ArgNum f]"
  by (induction in' arbitrary: rb) (auto simp: has_key_def split: json.splits if_splits)

text \<open>
  C7, as amended. \<^verbatim>\<open>size\<close> is optional and defaults to 0. For every randbytes mapping
  with no \<^verbatim>\<open>size\<close> key: when it has no \<^verbatim>\<open>deviation\<close> key either,
  \<^verbatim>\<open>parseRandBytes\<close> succeeds with size 0 and deviation 0; in any case the only value it
  can succeed with is that one, and the only errors it can return are the two about the
  deviation. There is no error for a missing size.
\<close>

theorem parseRandBytes_size_optional:
  assumes "\<not> has_key E [''size''] in'"
  shows "(\<not> has_key E [''deviation''] in' \<longrightarrow>
            parseRandBytes E in' = Ok \<lparr>rb_Size = 0, rb_Deviation = 0\<rparr>)
       \<and> (\<forall>rBytes. parseRandBytes E in' = Ok rBytes \<longrightarrow>
            rBytes = \<lparr>rb_Size = 0, rb_Deviation = 0\<rparr>)
       \<and> (\<forall>e. parseRandBytes E in' = Err e \<longrightarrow>
             e = Errorf ''deviation cant be larger than size'' []
             \<or> (\<exists>f. f < 0 \<and>
                  e = Errorf ''invalid deviation value, should be positive: %f'' [ArgNum f]))"
proof (intro conjI allI impI)
  assume "\<not> has_key E [''deviation''] in'"
  with assms have "\<not> has_key E [''size'', ''deviation''] in'"
    by (auto simp: has_key_def list_ex_iff)
  from parseRandBytes_loop_no_keys[OF this]
  show "parseRandBytes E in' = Ok \<lparr>rb_Size = 0, rb_Deviation = 0\<rparr>"
    by (simp add: parseRandBytes_def)
next
  fix rBytes assume ok: "parseRandBytes E in' = Ok rBytes"
  then have l: "parseRandBytes_loop E in' \<lparr>rb_Size = 0, rb_Deviation = 0\<rparr> = Ok rBytes"
    and d: "\<not> rb_Size rBytes < rb_Deviation rBytes"
    by (auto simp: parseRandBytes_def split: result.splits if_splits)
  from parseRandBytes_loop_no_size[OF assms l] have "rb_Size rBytes = 0" by simp
  with d have "rb_Deviation rBytes = 0" by (simp add: word_gt_0)
  with \<open>rb_Size rBytes = 0\<close> show "rBytes = \<lparr>rb_Size = 0, rb_Deviation = 0\<rparr>" by simp
next
  fix e assume "parseRandBytes E in' = Err e"
  then show "e = Errorf ''deviation cant be larger than size'' []
             \<or> (\<exists>f. f < 0 \<and>
                  e = Errorf ''invalid deviation value, should be positive: %f'' [ArgNum f])"
    using parseRandBytes_loop_no_size_err[OF assms]
    by (auto simp: parseRandBytes_def split: result.splits if_splits)
qed

theorem parseRandBytes_size_optional_witness:
  "\<not> has_key env0 [''size''] [(''Deviation'', JNum 5)]
   \<and> parseRandBytes env0 [(''Deviation'', JNum 5)] =
       Err (Errorf ''deviation cant be larger than size'' [])
   \<and> \<not> has_key env0 [''size''] [(''comment'', JStr ''no size'')]
   \<and> parseRandBytes env0 [(''comment'', JStr ''no size'')] = Ok \<lparr>rb_Size = 0, rb_Deviation = 0\<rparr>"
proof -
  have a: "\<not> has_key env0 [''size''] [(''Deviation'', JNum 5)]"
    and b: "\<not> has_key env0 [''size''] [(''comment'', JStr ''no size'')]"
    and c: "\<not> has_key env0 [''deviation''] [(''comment'', JStr ''no size'')]"
    by (simp_all add: eval_simps)
  have d: "parseRandBytes env0 [(''Deviation'', JNum 5)] =
       Err (Errorf ''deviation cant be larger than size'' [])"
    by (simp add: parseRandBytes_def eval_simps to_uint_def trunc_def)
  from parseRandBytes_size_optional[OF b] c a b d show ?thesis by blast
qed

text \<open>C7 as stated fails: the empty randbytes mapping has no \<^verbatim>\<open>size\<close> key and is
  parsed without an error.\<close>

theorem parseRandBytes_size_optional_counterexample:
  "\<not> has_key env0 [''size''] [] \<and> parseRandBytes env0 [] = Ok \<lparr>rb_Size = 0, rb_Deviation = 0\<rparr>"
  by (simp add: parseRandBytes_def has_key_def)

text \<open>
  C10. \<^verbatim>\<open>parseRandBytes\<close> gives the same result, value, error or panic, on a mapping
  and on the mapping without its keys other than \<^verbatim>\<open>size\<close> and \<^verbatim>\<open>deviation\<close>
  (case-insensitively): keys added to a mapping, wherever the loop visits them and
  whatever their values, cause no error and change nothing.
\<close>

theorem parseRandBytes_ignores_other_keys:
  "parseRandBytes E in' =
   parseRandBytes E
     (filter (\<lambda>(k, v). ToLower E k = ''size'' \<or> ToLower E k = ''deviation'') in')"
  unfolding parseRandBytes_def using parseRandBytes_loop_filter[of E in'] by simp

theorem parseRandBytes_ignores_other_keys_witness:
  "parseRandBytes env0
     [(''note'', JNull), (''Size'', JNum 10), (''raw'', JObj []), (''deviation'', JNum 5),
      (''sizes'', JStr ''x'')] =
   parseRandBytes env0 [(''Size'', JNum 10), (''deviation'', JNum 5)]
   \<and> parseRandBytes env0 [(''Size'', JNum 10), (''deviation'', JNum 5)] =
       Ok \<lparr>rb_Size = 10, rb_Deviation = 5\<rparr>"
proof -
  have "parseRandBytes env0 [(''Size'', JNum 10), (''deviation'', JNum 5)] =
       Ok \<lparr>rb_Size = 10, rb_Deviation = 5\<rparr>"
    by (simp add: parseRandBytes_def eval_simps to_uint_def trunc_def)
  then show ?thesis
    using parseRandBytes_ignores_other_keys[of env0
        "[(''note'', JNull), (''Size'', JNum 10), (''raw'', JObj []), (''deviation'', JNum 5),
          (''sizes'', JStr ''x'')]"]
    by (simp add: eval_simps)
qed

section \<open>TCP flags\<close>

lemma parseTCPFlags_loop_xor:
  "map (\<lambda>s. flag_bit (ToLower E s)) ss = map Some bits \<Longrightarrow>
   parseTCPFlags_loop E (map JStr ss) acc = Ok (acc XOR xor_all bits)"
proof (induction ss arbitrary: bits acc)
  case Nil
  then show ?case by simp
next
  case (Cons s ss)
  then obtain b bs where bits: "bits = b # bs" and b: "flag_bit (ToLower E s) = Some b"
    and bs: "map (\<lambda>s. flag_bit (ToLower E s)) ss = map Some bs"
    by (cases bits) auto
  have step: "parseTCPFlags_loop E (map JStr (s # ss)) acc =
      parseTCPFlags_loop E (map JStr ss) (acc XOR b)"
    using b by (auto simp: flag_bit_def Let_def split: if_splits)
  show ?case unfolding step bits using Cons.IH[OF bs] by (simp add: ac_simps)
qed

lemma parseTCPFlags_loop_unknown:
  "list_ex (\<lambda>s. flag_bit (ToLower E s) = None) ss \<Longrightarrow>
   \<exists>s. s \<in> set ss \<and> flag_bit (ToLower E s) = None \<and>
      parseTCPFlags_loop E (map JStr ss) acc = Err (Errorf ''unknown flag value: %s'' [ArgStr s])"
proof (induction ss arbitrary: acc)
  case Nil
  then show ?case by simp
next
  case (Cons s ss)
  show ?case
  proof (cases "flag_bit (ToLower E s)")
    case None
    then have "parseTCPFlags_loop E (map JStr (s # ss)) acc =
        Err (Errorf ''unknown flag value: %s'' [ArgStr s])"
      by (auto simp: flag_bit_def Let_def split: if_splits)
    with None show ?thesis by auto
  next
    case (Some b)
    then have step: "parseTCPFlags_loop E (map JStr (s # ss)) acc =
        parseTCPFlags_loop E (map JStr ss) (acc XOR b)"
      by (auto simp: flag_bit_def Let_def split: if_splits)
    from Some Cons.prems have "list_ex (\<lambda>s. flag_bit (ToLower E s) = None) ss" by auto
    from Cons.IH[OF this, of "acc XOR b"] show ?thesis unfolding step by auto
  qed
qed

lemma parseTCPFlags_loop_prefix:
  "map (\<lambda>s. flag_bit (ToLower E s)) ss = map Some bits \<Longrightarrow>
   parseTCPFlags_loop E (map JStr ss @ rest) acc =
     parseTCPFlags_loop E rest (acc XOR xor_all bits)"
proof (induction ss arbitrary: bits acc)
  case Nil
  then show ?case by simp
next
  case (Cons s ss)
  then obtain b bs where bits: "bits = b # bs" and b: "flag_bit (ToLower E s) = Some b"
    and bs: "map (\<lambda>s. flag_bit (ToLower E s)) ss = map Some bs"
    by (cases bits) auto
  have step: "parseTCPFlags_loop E (map JStr (s # ss) @ rest) acc =
      parseTCPFlags_loop E (map JStr ss @ rest) (acc XOR b)"
    using b by (auto simp: flag_bit_def Let_def split: if_splits)
  show ?case unfolding step bits using Cons.IH[OF bs] by (simp add: ac_simps)
qed

lemma parseTCPFlags_loop_stops:
  "flag_bit (ToLower E s) = None \<Longrightarrow>
   parseTCPFlags_loop E (JStr s # rest) acc = Err (Errorf ''unknown flag value: %s'' [ArgStr s])"
  by (auto simp: flag_bit_def Let_def split: if_splits)

lemma parseTCPFlags_loop_panics:
  "\<forall>x. j \<noteq> JStr x \<Longrightarrow> parseTCPFlags_loop E (j # rest) acc = Panic"
  by (cases j) auto

text \<open>
  C5, as amended. For every array of tokens that are all recognized
  (case-insensitively), \<^verbatim>\<open>parseTCPFlags\<close> returns the exclusive or of the
  corresponding flag bits, one operand for each occurrence; \<^verbatim>\<open>["syn","syn"]\<close> gives 0
  and \<^verbatim>\<open>["syn","ack"]\<close> gives \<^verbatim>\<open>Syn|Ack\<close>. For every array whose elements up to and
  including its first unrecognized token are strings, it returns the error for an unknown
  flag value, naming that token, whatever follows it. When an element that is not a
  string comes before any unrecognized token, \<^verbatim>\<open>parseTCPFlags\<close> panics on the type
  assertion and returns nothing.
\<close>

theorem parseTCPFlags_toggles:
  "(\<forall>ss bits. map (\<lambda>s. flag_bit (ToLower E s)) ss = map Some bits \<longrightarrow>
       parseTCPFlags E (map JStr ss) = Ok (xor_all bits))
   \<and> parseTCPFlags E [JStr ''syn'', JStr ''syn''] = Ok 0
   \<and> parseTCPFlags E [JStr ''syn'', JStr ''ack''] = Ok (TCPFlagSyn OR TCPFlagAck)
   \<and> (\<forall>ss. list_ex (\<lambda>s. flag_bit (ToLower E s) = None) ss \<longrightarrow>
        (\<exists>s. s \<in> set ss \<and> flag_bit (ToLower E s) = None \<and>
           parseTCPFlags E (map JStr ss) = Err (Errorf ''unknown flag value: %s'' [ArgStr s])))
   \<and> (\<forall>ss bits s rest.
        map (\<lambda>s. flag_bit (ToLower E s)) ss = map Some bits \<and> flag_bit (ToLower E s) = None \<longrightarrow>
        parseTCPFlags E (map JStr ss @ JStr s # rest) =
          Err (Errorf ''unknown flag value: %s'' [ArgStr s]))
   \<and> (\<forall>ss bits j rest.
        map (\<lambda>s. flag_bit (ToLower E s)) ss = map Some bits \<and> (\<forall>x. j \<noteq> JStr x) \<longrightarrow>
        parseTCPFlags E (map JStr ss @ j # rest) = Panic)"
proof (intro conjI allI impI)
  fix ss bits assume "map (\<lambda>s. flag_bit (ToLower E s)) ss = map Some bits"
  from parseTCPFlags_loop_xor[OF this, of 0]
  show "parseTCPFlags E (map JStr ss) = Ok (xor_all bits)" by (simp add: parseTCPFlags_def)
next
  show "parseTCPFlags E [JStr ''syn'', JStr ''syn''] = Ok 0"
    by (simp add: parseTCPFlags_def eval_simps)
next
  show "parseTCPFlags E [JStr ''syn'', JStr ''ack''] = Ok (TCPFlagSyn OR TCPFlagAck)"
    by (simp add: parseTCPFlags_def eval_simps TCPFlagSyn_def TCPFlagAck_def)
next
  fix ss assume "list_ex (\<lambda>s. flag_bit (ToLower E s) = None) ss"
  from parseTCPFlags_loop_unknown[OF this, of 0]
  show "\<exists>s. s \<in> set ss \<and> flag_bit (ToLower E s) = None \<and>
           parseTCPFlags E (map JStr ss) = Err (Errorf ''unknown flag value: %s'' [ArgStr s])"
    by (simp add: parseTCPFlags_def)
next
  fix ss bits s rest
  assume h: "map (\<lambda>s. flag_bit (ToLower E s)) ss = map Some bits \<and> flag_bit (ToLower E s) = None"
  then have "parseTCPFlags_loop E (map JStr ss @ JStr s # rest) 0 =
      parseTCPFlags_loop E (JStr s # rest) (0 XOR xor_all bits)"
    using parseTCPFlags_loop_prefix[of E ss bits "JStr s # rest" 0] by blast
  also have "\<dots> = Err (Errorf ''unknown flag value: %s'' [ArgStr s])"
    using h by (intro parseTCPFlags_loop_stops) blast
  finally show "parseTCPFlags E (map JStr ss @ JStr s # rest) =
      Err (Errorf ''unknown flag value: %s'' [ArgStr s])"
    by (simp add: parseTCPFlags_def)
next
  fix ss bits j rest
  assume h: "map (\<lambda>s. flag_bit (ToLower E s)) ss = map Some bits \<and> (\<forall>x. j \<noteq> JStr x)"
  then have "parseTCPFlags_loop E (map JStr ss @ j # rest) 0 =
      parseTCPFlags_loop E (j # rest) (0 XOR xor_all bits)"
    using parseTCPFlags_loop_prefix[of E ss bits "j # rest" 0] by blast
  also have "\<dots> = Panic"
    using h by (intro parseTCPFlags_loop_panics) blast
  finally show "parseTCPFlags E (map JStr ss @ j # rest) = Panic"
    by (simp add: parseTCPFlags_def)
qed

theorem parseTCPFlags_toggles_witness:
  "parseTCPFlags env0 (map JStr [''SYN'', ''fin'', ''Syn'', ''ack'']) = Ok (TCPFlagFin XOR TCPFlagAck)
   \<and> parseTCPFlags env0 (map JStr [''syn'', ''bogus'', ''ack'']) =
       Err (Errorf ''unknown flag value: %s'' [ArgStr ''bogus''])"
proof -
  have a: "map (\<lambda>s. flag_bit (ToLower env0 s)) [''SYN'', ''fin'', ''Syn'', ''ack''] =
      map Some [TCPFlagSyn, TCPFlagFin, TCPFlagSyn, TCPFlagAck]"
    by (simp add: flag_bit_def eval_simps)
  have b: "list_ex (\<lambda>s. flag_bit (ToLower env0 s) = None) [''syn'', ''bogus'', ''ack'']"
    by (simp add: flag_bit_def eval_simps)
  have c: "flag_bit (ToLower env0 ''syn'') \<noteq> None" "flag_bit (ToLower env0 ''ack'') \<noteq> None"
    by (simp_all add: flag_bit_def eval_simps)
  note t = parseTCPFlags_toggles[of env0]
  from t a
  have 1: "parseTCPFlags env0 (map JStr [''SYN'', ''fin'', ''Syn'', ''ack'']) =
      Ok (xor_all [TCPFlagSyn, TCPFlagFin, TCPFlagSyn, TCPFlagAck])"
    by blast
  from t b obtain s where s: "s \<in> set [''syn'', ''bogus'', ''ack'']"
      "flag_bit (ToLower env0 s) = None"
      "parseTCPFlags env0 (map JStr [''syn'', ''bogus'', ''ack'']) =
         Err (Errorf ''unknown flag value: %s'' [ArgStr s])"
    by blast
  from s(1,2) c have "s = ''bogus''" by auto
  with s(3) 1 show ?thesis by (simp add: ac_simps)
qed

text \<open>
  C5 as stated fails: the array \<^verbatim>\<open>[5, "bogus"]\<close> contains the unrecognized token
  \<^verbatim>\<open>bogus\<close>, and \<^verbatim>\<open>parseTCPFlags\<close> panics on its first element: no error is
  returned.
\<close>

theorem parseTCPFlags_toggles_counterexample:
  "flag_bit (ToLower env0 ''bogus'') = None
   \<and> parseTCPFlags env0 [JNum 5, JStr ''bogus''] = Panic"
  by (simp add: parseTCPFlags_def flag_bit_def eval_simps)

section \<open>The example document\<close>

lemma mac_ff: "net_ParseMAC E ''ff:ff:ff:ff:ff:ff'' = Some [255, 255, 255, 255, 255, 255]"
proof -
  have "separated_MAC ''ff:ff:ff:ff:ff:ff'' = Some [255, 255, 255, 255, 255, 255]"
    by code_simp
  then show ?thesis by (simp add: net_ParseMAC_def)
qed

lemma c3_tcp_parse:
  "parseTCPHdr E [(''dport'', JNum 80)] r = Ok (c3_tcp, r)"
  by (simp add: parseTCPHdr_def TCPConfig_init_def c3_tcp_def parsePort_def eval_simps
        to_uint_def trunc_def PortRange_zero_def Sequence_zero_def DataType_zero_def)

lemma c3_ip_parse:
  "c3_ip_block swap = JObj m \<Longrightarrow> parseIPHdr E m r = Ok (c3_ip, r)"
  by (cases swap)
     (auto simp: c3_ip_block_def parseIPHdr_def IPConfig_init_def c3_ip_def c3_tcp_parse
        eval_simps to_int_def trunc_def DataType_zero_def)

lemma c3_ether_parse:
  "c3_ether_block swap swap' = JObj m \<Longrightarrow> parseEtherHdr E m r = Ok (c3_ether, r)"
proof -
  obtain m' where m': "c3_ip_block swap' = JObj m'"
    by (cases swap') (simp_all add: c3_ip_block_def)
  assume "c3_ether_block swap swap' = JObj m"
  then show ?thesis
    using c3_ip_parse[OF m', of E r]
    by (cases swap)
       (auto simp: c3_ether_block_def m' parseEtherHdr_def EtherConfig_init_def c3_ether_def
          parseMacAddr_def single_addr_def mac_ff eval_simps)
qed

text \<open>
  C3. Parsing the document
  \<^verbatim>\<open>{"ether": {"daddr":"ff:ff:ff:ff:ff:ff","ip":{"version":4,"tcp":{"dport":80}}}}\<close>
  succeeds, in every visiting order, with exactly one entry of quantity 1: Ethernet with
  destination ff:ff:ff:ff:ff:ff, whose child is Ip of version 4, whose child is Tcp with
  DPort the single port 80 and SPort the zero range.
\<close>

theorem ParseConfig_example:
  "ParseConfig E (Decodes (c3_document swap swap')) in2 r = Returned [c3_entry] None"
proof -
  obtain m where m: "c3_ether_block swap swap' = JObj m"
    by (cases swap) (simp_all add: c3_ether_block_def)
  show ?thesis
    using c3_ether_parse[OF m, of E r]
    by (simp add: c3_document_def m ParseConfig_def c3_entry_def eval_simps)
qed

section \<open>Childless headers\<close>

lemma payload_keys_simps:
  "s \<notin> set payload_keys \<longleftrightarrow> s \<noteq> ''raw'' \<and> s \<noteq> ''randbytes'' \<and> s \<noteq> ''pdist''"
  by (auto simp: payload_keys_def)

lemma childless_Cons:
  "\<not> has_key E (nested_protocol_keys @ payload_keys) ((k, v) # kvs) \<longleftrightarrow>
   ToLower E k \<notin> set nested_protocol_keys \<and> ToLower E k \<notin> set payload_keys
   \<and> \<not> has_key E (nested_protocol_keys @ payload_keys) kvs"
  by (auto simp: has_key_def)

lemma nested_keys_simps:
  "s \<notin> set nested_protocol_keys \<longleftrightarrow>
     s \<noteq> ''ip'' \<and> s \<noteq> ''arp'' \<and> s \<noteq> ''tcp'' \<and> s \<noteq> ''udp'' \<and> s \<noteq> ''icmp''"
  by (auto simp: nested_protocol_keys_def)

lemma parseTCPHdr_loop_childless:
  "\<not> has_key E (nested_protocol_keys @ payload_keys) in' \<Longrightarrow>
   parseTCPHdr_loop E in' h r = Ok (h', r') \<Longrightarrow>
   tcp_DType h' = tcp_DType h \<and> tcp_Data h' = tcp_Data h"
proof (induction in' arbitrary: h r)
  case Nil
  then show ?case by simp
next
  case (Cons a in')
  obtain k v where a: "a = (k, v)" by (cases a)
  from Cons.prems(1)
  have k: "ToLower E k \<noteq> ''raw''" "ToLower E k \<noteq> ''randbytes''" "ToLower E k \<noteq> ''pdist''"
    and rest: "\<not> has_key E (nested_protocol_keys @ payload_keys) in'"
    by (simp_all add: a childless_Cons payload_keys_simps)
  from Cons.prems(2) show ?case
    using Cons.IH[OF rest] k
    by (auto simp: a split: if_splits result.splits json.splits)
qed

lemma parseUDPHdr_loop_childless:
  "\<not> has_key E (nested_protocol_keys @ payload_keys) in' \<Longrightarrow>
   parseUDPHdr_loop E in' h = Ok h' \<Longrightarrow>
   udp_DType h' = udp_DType h \<and> udp_Data h' = udp_Data h"
proof (induction in' arbitrary: h)
  case Nil
  then show ?case by simp
next
  case (Cons a in')
  obtain k v where a: "a = (k, v)" by (cases a)
  from Cons.prems(1)
  have k: "ToLower E k \<noteq> ''raw''" "ToLower E k \<noteq> ''randbytes''" "ToLower E k \<noteq> ''pdist''"
    and rest: "\<not> has_key E (nested_protocol_keys @ payload_keys) in'"
    by (simp_all add: a childless_Cons payload_keys_simps)
  from Cons.prems(2) show ?case
    using Cons.IH[OF rest] k
    by (auto simp: a split: if_splits result.splits json.splits)
qed

lemma parseICMPHdr_loop_childless:
  "\<not> has_key E (nested_protocol_keys @ payload_keys) in' \<Longrightarrow>
   parseICMPHdr_loop E in' h r = Ok (h', r') \<Longrightarrow>
   icmp_DType h' = icmp_DType h \<and> icmp_Data h' = icmp_Data h"
proof (induction in' arbitrary: h r)
  case Nil
  then show ?case by simp
next
  case (Cons a in')
  obtain k v where a: "a = (k, v)" by (cases a)
  from Cons.prems(1)
  have k: "ToLower E k \<noteq> ''raw''" "ToLower E k \<noteq> ''randbytes''" "ToLower E k \<noteq> ''pdist''"
    and rest: "\<not> has_key E (nested_protocol_keys @ payload_keys) in'"
    by (simp_all add: a childless_Cons payload_keys_simps)
  from Cons.prems(2) show ?case
    using Cons.IH[OF rest] k
    by (auto simp: a split: if_splits result.splits json.splits)
qed

lemma parseIPHdr_loop_childless:
  "\<not> has_key E (nested_protocol_keys @ payload_keys) in' \<Longrightarrow>
   parseIPHdr_loop E in' h r = Ok (h', r') \<Longrightarrow>
   ip_DType h' = ip_DType h \<and> ip_Data h' = ip_Data h"
proof (induction in' arbitrary: h r)
  case Nil
  then show ?case by simp
next
  case (Cons a in')
  obtain k v where a: "a = (k, v)" by (cases a)
  from Cons.prems(1)
  have k: "ToLower E k \<noteq> ''raw''" "ToLower E k \<noteq> ''randbytes''" "ToLower E k \<noteq> ''pdist''"
    and n: "ToLower E k \<noteq> ''tcp''" "ToLower E k \<noteq> ''udp''" "ToLower E k \<noteq> ''icmp''"
    and rest: "\<not> has_key E (nested_protocol_keys @ payload_keys) in'"
    by (simp_all add: a childless_Cons nested_keys_simps payload_keys_simps)
  from Cons.prems(2) show ?case
    using Cons.IH[OF rest] n k
    by (auto simp: a Let_def split: if_splits result.splits json.splits)
qed

lemma parseEtherHdr_loop_childless:
  "\<not> has_key E (nested_protocol_keys @ payload_keys) in' \<Longrightarrow>
   parseEtherHdr_loop E in' h r = Ok (h', r') \<Longrightarrow>
   eth_DType h' = eth_DType h \<and> eth_Data h' = eth_Data h"
proof (induction in' arbitrary: h r)
  case Nil
  then show ?case by simp
next
  case (Cons a in')
  obtain k v where a: "a = (k, v)" by (cases a)
  from Cons.prems(1)
  have k: "ToLower E k \<noteq> ''raw''" "ToLower E k \<noteq> ''randbytes''" "ToLower E k \<noteq> ''pdist''"
    and n: "ToLower E k \<noteq> ''ip''" "ToLower E k \<noteq> ''arp''"
    and rest: "\<not> has_key E (nested_protocol_keys @ payload_keys) in'"
    by (simp_all add: a childless_Cons nested_keys_simps payload_keys_simps)
  from Cons.prems(2) show ?case
    using Cons.IH[OF rest] n k
    by (auto simp: a split: if_splits result.splits json.splits)
qed

text \<open>
  C9. When an IP, TCP, UDP or ICMP block has no nested-protocol key and no payload key
  and is parsed successfully, the child tag of the result is \<^verbatim>\<open>ETHERHDR\<close>, the
  constant with integer 0, which differs from \<^verbatim>\<open>NONE\<close>; its child pointer is
  \<^verbatim>\<open>nil\<close> (for ICMP, the empty Raw the builder starts with). Only the Ethernet
  builder starts from \<^verbatim>\<open>NONE\<close>: a childless Ethernet block is tagged \<^verbatim>\<open>NONE\<close>.
\<close>

theorem childless_header_tag:
  assumes "\<not> has_key E (nested_protocol_keys @ payload_keys) in'"
  shows "(\<forall>c r'. parseIPHdr E in' r = Ok (c, r') \<longrightarrow> ip_DType c = ETHERHDR \<and> ip_Data c = None)
       \<and> (\<forall>c r'. parseTCPHdr E in' r = Ok (c, r') \<longrightarrow> tcp_DType c = ETHERHDR \<and> tcp_Data c = None)
       \<and> (\<forall>c. parseUDPHdr E in' = Ok c \<longrightarrow> udp_DType c = ETHERHDR \<and> udp_Data c = None)
       \<and> (\<forall>c r'. parseICMPHdr E in' r = Ok (c, r') \<longrightarrow> icmp_DType c = ETHERHDR)
       \<and> (\<forall>c r'. parseEtherHdr E in' r = Ok (c, r') \<longrightarrow> eth_DType c = NONE \<and> eth_Data c = None)
       \<and> DataType_int ETHERHDR = 0 \<and> ETHERHDR \<noteq> NONE"
  using parseIPHdr_loop_childless[OF assms] parseTCPHdr_loop_childless[OF assms]
    parseUDPHdr_loop_childless[OF assms] parseICMPHdr_loop_childless[OF assms]
    parseEtherHdr_loop_childless[OF assms]
  by (auto simp: parseIPHdr_def parseTCPHdr_def parseUDPHdr_def parseICMPHdr_def parseEtherHdr_def
        IPConfig_init_def TCPConfig_init_def UDPConfig_init_def ICMPConfig_init_def
        EtherConfig_init_def DataType_zero_def)

theorem childless_header_tag_witness:
  "parseIPHdr env0 [(''version'', JNum 6)] rng0 = Ok (IPConfig_init\<lparr>ip_Version := 6\<rparr>, rng0)
   \<and> ip_DType (IPConfig_init\<lparr>ip_Version := 6\<rparr>) = ETHERHDR
   \<and> parseTCPHdr env0 [(''seq'', JStr ''incr'')] rng0 =
       Ok (TCPConfig_init\<lparr>tcp_Seq := \<lparr>seq_Type = INCREASING, seq_Next = 0\<rparr>\<rparr>, rng0)
   \<and> tcp_DType (TCPConfig_init\<lparr>tcp_Seq := \<lparr>seq_Type = INCREASING, seq_Next = 0\<rparr>\<rparr>) = ETHERHDR
   \<and> parseUDPHdr env0 [] = Ok UDPConfig_init
   \<and> udp_DType UDPConfig_init = ETHERHDR
   \<and> parseICMPHdr env0 [(''type'', JNum 8)] rng0 = Ok (ICMPConfig_init\<lparr>icmp_Type := 8\<rparr>, rng0)
   \<and> icmp_DType (ICMPConfig_init\<lparr>icmp_Type := 8\<rparr>) = ETHERHDR
   \<and> parseEtherHdr env0 [(''vlan-tci'', JNum 5)] rng0 =
       Ok (EtherConfig_init\<lparr>eth_VLAN := Some \<lparr>vlan_TCI = 5\<rparr>\<rparr>, rng0)
   \<and> eth_DType (EtherConfig_init\<lparr>eth_VLAN := Some \<lparr>vlan_TCI = 5\<rparr>\<rparr>) = NONE"
proof -
  have k: "\<not> has_key env0 (nested_protocol_keys @ payload_keys) [(''version'', JNum 6)]"
    "\<not> has_key env0 (nested_protocol_keys @ payload_keys) [(''seq'', JStr ''incr'')]"
    "\<not> has_key env0 (nested_protocol_keys @ payload_keys) []"
    "\<not> has_key env0 (nested_protocol_keys @ payload_keys) [(''type'', JNum 8)]"
    "\<not> has_key env0 (nested_protocol_keys @ payload_keys) [(''vlan-tci'', JNum 5)]"
    by (simp_all add: nested_protocol_keys_def payload_keys_def eval_simps)
  have p: "parseIPHdr env0 [(''version'', JNum 6)] rng0 = Ok (IPConfig_init\<lparr>ip_Version := 6\<rparr>, rng0)"
    "parseTCPHdr env0 [(''seq'', JStr ''incr'')] rng0 =
       Ok (TCPConfig_init\<lparr>tcp_Seq := \<lparr>seq_Type = INCREASING, seq_Next = 0\<rparr>\<rparr>, rng0)"
    "parseUDPHdr env0 [] = Ok UDPConfig_init"
    "parseICMPHdr env0 [(''type'', JNum 8)] rng0 = Ok (ICMPConfig_init\<lparr>icmp_Type := 8\<rparr>, rng0)"
    "parseEtherHdr env0 [(''vlan-tci'', JNum 5)] rng0 =
       Ok (EtherConfig_init\<lparr>eth_VLAN := Some \<lparr>vlan_TCI = 5\<rparr>\<rparr>, rng0)"
    by (simp_all add: parseIPHdr_def parseTCPHdr_def parseUDPHdr_def parseICMPHdr_def
          parseEtherHdr_def parseSeq_def eval_simps to_int_def to_uint_def trunc_def)
  from childless_header_tag[OF k(1), of rng0] childless_header_tag[OF k(2), of rng0]
    childless_header_tag[OF k(3), of rng0] childless_header_tag[OF k(4), of rng0]
    childless_header_tag[OF k(5), of rng0] p
  show ?thesis by simp
qed

section \<open>Address ranges\<close>

lemma mac_01: "net_ParseMAC E ''00:00:00:00:00:01'' = Some [0, 0, 0, 0, 0, 1]"
proof -
  have "separated_MAC ''00:00:00:00:00:01'' = Some [0, 0, 0, 0, 0, 1]"
    by code_simp
  then show ?thesis by (simp add: net_ParseMAC_def)
qed

lemma mac_05: "net_ParseMAC E ''00:00:00:00:00:05'' = Some [0, 0, 0, 0, 0, 5]"
proof -
  have "separated_MAC ''00:00:00:00:00:05'' = Some [0, 0, 0, 0, 0, 5]"
    by code_simp
  then show ?thesis by (simp add: net_ParseMAC_def)
qed

lemma mac_0f: "net_ParseMAC E ''00:00:00:00:00:0f'' = Some [0, 0, 0, 0, 0, 15]"
proof -
  have "separated_MAC ''00:00:00:00:00:0f'' = Some [0, 0, 0, 0, 0, 15]"
    by code_simp
  then show ?thesis by (simp add: net_ParseMAC_def)
qed



lemma parseAddrRange_loop_succeeds:
  "range_block E pf kvs \<Longrightarrow> \<exists>st'. parseAddrRange_loop E pf kvs st = Ok st'"
proof (induction kvs arbitrary: st)
  case Nil
  then show ?case by simp
next
  case (Cons a kvs)
  obtain k v where a: "a = (k, v)" by (cases a)
  from Cons.prems have rb: "range_block E pf kvs" and re: "range_entry E pf (k, v)"
    by (simp_all add: range_block_def a)
  from re show ?case
    unfolding a using Cons.IH[OF rb]
    by (auto simp: range_entry_def split: if_splits json.splits result.splits)
qed

lemma parseAddrRange_loop_Min:
  "parseAddrRange_loop E pf kvs st = Ok st' \<Longrightarrow>
   ar_Min (addr st') = (case addr_field E pf ''min'' kvs of None \<Rightarrow> ar_Min (addr st) | Some b \<Rightarrow> b)
   \<and> wasMin st' = (wasMin st \<or> addr_field E pf ''min'' kvs \<noteq> None)"
proof (induction kvs arbitrary: st)
  case Nil
  then show ?case by simp
next
  case (Cons a kvs)
  obtain k v where a: "a = (k, v)" by (cases a)
  from Cons.prems show ?case
    unfolding a
    by (auto split: if_splits json.splits result.splits option.splits dest!: Cons.IH)
qed

lemma parseAddrRange_loop_Max:
  "parseAddrRange_loop E pf kvs st = Ok st' \<Longrightarrow>
   ar_Max (addr st') = (case addr_field E pf ''max'' kvs of None \<Rightarrow> ar_Max (addr st) | Some b \<Rightarrow> b)
   \<and> wasMax st' = (wasMax st \<or> addr_field E pf ''max'' kvs \<noteq> None)"
proof (induction kvs arbitrary: st)
  case Nil
  then show ?case by simp
next
  case (Cons a kvs)
  obtain k v where a: "a = (k, v)" by (cases a)
  from Cons.prems show ?case
    unfolding a
    by (auto split: if_splits json.splits result.splits option.splits dest!: Cons.IH)
qed

lemma parseAddrRange_loop_Current:
  "parseAddrRange_loop E pf kvs st = Ok st' \<Longrightarrow>
   ar_Current (addr st') =
     (case addr_field E pf ''start'' kvs of None \<Rightarrow> ar_Current (addr st) | Some b \<Rightarrow> b)
   \<and> wasStart st' = (wasStart st \<or> addr_field E pf ''start'' kvs \<noteq> None)"
proof (induction kvs arbitrary: st)
  case Nil
  then show ?case by simp
next
  case (Cons a kvs)
  obtain k v where a: "a = (k, v)" by (cases a)
  from Cons.prems show ?case
    unfolding a
    by (auto split: if_splits json.splits result.splits option.splits dest!: Cons.IH)
qed

lemma parseAddrRange_loop_Incr:
  "parseAddrRange_loop E pf kvs st = Ok st' \<Longrightarrow>
   ar_Incr (addr st') =
     (case incr_field E kvs of None \<Rightarrow> ar_Incr (addr st) | Some f \<Rightarrow> big_Bytes (to_int64 E f))
   \<and> wasIncr st' = (wasIncr st \<or> incr_field E kvs \<noteq> None)"
proof (induction kvs arbitrary: st)
  case Nil
  then show ?case by simp
next
  case (Cons a kvs)
  obtain k v where a: "a = (k, v)" by (cases a)
  from Cons.prems show ?case
    unfolding a
    by (auto split: if_splits json.splits result.splits option.splits dest!: Cons.IH)
qed

lemma to_int64_of_int:
  "- (2 ^ 63) \<le> n \<Longrightarrow> n < 2 ^ 63 \<Longrightarrow> big_Bytes (to_int64 E (of_int n)) = be_bytes (nat \<bar>n\<bar>)"
  by (simp add: to_int64_def trunc_def big_Bytes_def signed_of_int signed_take_bit_int_eq_self)

lemma be_bytes_1: "be_bytes (Suc 0) = [1]"
  by code_simp

lemma be_bytes_2: "be_bytes 2 = [2]"
  by code_simp

lemma bytes_Compare_swap: "bytes_Compare a b = - bytes_Compare b a"
proof (induction a b rule: bytes_Compare.induct)
  case (4 a as b bs)
  then show ?case by (cases "a < b"; cases "b < a") auto
qed simp_all

lemma bytes_Compare_refl: "bytes_Compare a a = 0"
  by (induction a) auto

text \<open>
  C4, as amended. For every address-range block whose keys are all among \<^verbatim>\<open>min\<close>,
  \<^verbatim>\<open>max\<close>, \<^verbatim>\<open>start\<close>, \<^verbatim>\<open>incr\<close> (case-insensitively), whose addresses are
  strings that parse and whose increment, if given, is a number, with min \<open>\<le>\<close> max and
  start, if present, in [min, max] in the order of \<^verbatim>\<open>bytes.Compare\<close>:
  \<^verbatim>\<open>parseAddrRange\<close> succeeds, \<^verbatim>\<open>Min\<close> and \<^verbatim>\<open>Max\<close> are the decoded bounds,
  \<^verbatim>\<open>Current\<close> is start (\<^verbatim>\<open>Min\<close> when start is omitted), and \<^verbatim>\<open>Incr\<close> is the minimal
  big-endian byte representation of 1 when the increment is omitted, and otherwise of the
  magnitude of the increment converted to \<^verbatim>\<open>int64\<close>: for an integer \<open>n\<close> with
  \<open>-2\<^sup>6\<^sup>3 \<le> n < 2\<^sup>6\<^sup>3\<close>, of \<open>\<bar>n\<bar>\<close>.
\<close>

theorem parseAddrRange_valid_block:
  assumes "range_block E parseFunc in'"
      and "addr_field E parseFunc ''min'' in' = Some mn"
      and "addr_field E parseFunc ''max'' in' = Some mx"
      and "0 \<le> bytes_Compare mx mn"
      and "case addr_field E parseFunc ''start'' in' of
             None \<Rightarrow> True
           | Some start \<Rightarrow> 0 \<le> bytes_Compare start mn \<and> bytes_Compare start mx \<le> 0"
  shows "(\<exists>a. parseAddrRange E in' parseFunc = Ok a
            \<and> ar_Min a = mn \<and> ar_Max a = mx
            \<and> ar_Current a =
                (case addr_field E parseFunc ''start'' in' of None \<Rightarrow> mn | Some start \<Rightarrow> start)
            \<and> ar_Incr a =
                (case incr_field E in' of None \<Rightarrow> be_bytes 1
                 | Some f \<Rightarrow> big_Bytes (to_int64 E f)))
         \<and> (\<forall>n. - (2 ^ 63) \<le> n \<and> n < 2 ^ 63 \<longrightarrow>
               big_Bytes (to_int64 E (of_int n)) = be_bytes (nat \<bar>n\<bar>))"
proof
  let ?init = "\<lparr>addr = AddrRange_zero, wasMin = False, wasMax = False, wasStart = False,
       wasIncr = False\<rparr>"
  from parseAddrRange_loop_succeeds[OF assms(1)]
  obtain st where l: "parseAddrRange_loop E parseFunc in' ?init = Ok st" by blast
  note f = parseAddrRange_loop_Min[OF l] parseAddrRange_loop_Max[OF l]
    parseAddrRange_loop_Current[OF l] parseAddrRange_loop_Incr[OF l]
  from assms(4) have swap: "\<not> 0 < bytes_Compare mn mx"
    using bytes_Compare_swap[of mn mx] by simp
  show "\<exists>a. parseAddrRange E in' parseFunc = Ok a
            \<and> ar_Min a = mn \<and> ar_Max a = mx
            \<and> ar_Current a =
                (case addr_field E parseFunc ''start'' in' of None \<Rightarrow> mn | Some start \<Rightarrow> start)
            \<and> ar_Incr a =
                (case incr_field E in' of None \<Rightarrow> be_bytes 1
                 | Some f \<Rightarrow> big_Bytes (to_int64 E f))"
    using assms(2-5) f swap bytes_Compare_refl[of mn]
    by (auto simp: parseAddrRange_def l Let_def be_bytes_1 split: option.splits)
next
  show "\<forall>n. - (2 ^ 63) \<le> n \<and> n < 2 ^ 63 \<longrightarrow>
          big_Bytes (to_int64 E (of_int n)) = be_bytes (nat \<bar>n\<bar>)"
    using to_int64_of_int by blast
qed

theorem parseAddrRange_valid_block_witness:
  "range_block env0 (parseRawMACAddr env0) block_full
   \<and> parseAddrRange env0 block_full (parseRawMACAddr env0) =
       Ok \<lparr>ar_Min = [0, 0, 0, 0, 0, 1], ar_Max = [0, 0, 0, 0, 0, 15],
           ar_Current = [0, 0, 0, 0, 0, 5], ar_Incr = [2]\<rparr>"
proof -
  have rb: "range_block env0 (parseRawMACAddr env0) block_full"
    by (simp add: range_block_def range_entry_def block_full_def parseRawMACAddr_def
          mac_01 mac_05 mac_0f eval_simps)
  have mn: "addr_field env0 (parseRawMACAddr env0) ''min'' block_full = Some [0, 0, 0, 0, 0, 1]"
    and mx: "addr_field env0 (parseRawMACAddr env0) ''max'' block_full = Some [0, 0, 0, 0, 0, 15]"
    and st: "addr_field env0 (parseRawMACAddr env0) ''start'' block_full = Some [0, 0, 0, 0, 0, 5]"
    and ic: "incr_field env0 block_full = Some 2"
    by (simp_all add: block_full_def parseRawMACAddr_def mac_01 mac_05 mac_0f eval_simps)
  have c: "0 \<le> bytes_Compare [0, 0, 0, 0, 0, 15] [0, 0, 0, 0, 0, 1 :: byte]"
    by simp
  have s: "case addr_field env0 (parseRawMACAddr env0) ''start'' block_full of
             None \<Rightarrow> True
           | Some start \<Rightarrow> 0 \<le> bytes_Compare start [0, 0, 0, 0, 0, 1]
                         \<and> bytes_Compare start [0, 0, 0, 0, 0, 15] \<le> 0"
    by (simp add: st)
  from parseAddrRange_valid_block[OF rb mn mx c s]
  obtain a where a: "parseAddrRange env0 block_full (parseRawMACAddr env0) = Ok a"
    "ar_Min a = [0, 0, 0, 0, 0, 1]" "ar_Max a = [0, 0, 0, 0, 0, 15]"
    "ar_Current a = [0, 0, 0, 0, 0, 5]" "ar_Incr a = big_Bytes (to_int64 env0 2)"
    by (auto simp: st ic)
  have "big_Bytes (to_int64 env0 2) = [2]"
    using to_int64_of_int[of 2 env0] by (simp add: be_bytes_2)
  with a have "a = \<lparr>ar_Min = [0, 0, 0, 0, 0, 1], ar_Max = [0, 0, 0, 0, 0, 15],
           ar_Current = [0, 0, 0, 0, 0, 5], ar_Incr = [2]\<rparr>"
    by (cases a) simp
  with a(1) rb show ?thesis by simp
qed

text \<open>
  C4 as stated fails: min and max parse with min \<open>\<le>\<close> max and there is no start, but the
  block spells the increment \<^verbatim>\<open>step\<close>, and \<^verbatim>\<open>parseAddrRange\<close> returns the error of
  the default case.
\<close>

theorem parseAddrRange_valid_block_counterexample:
  "(parseRawMACAddr env0) ''00:00:00:00:00:01'' = Ok [0, 0, 0, 0, 0, 1]
   \<and> (parseRawMACAddr env0) ''00:00:00:00:00:0f'' = Ok [0, 0, 0, 0, 0, 15]
   \<and> 0 \<le> bytes_Compare [0, 0, 0, 0, 0, 15] [0, 0, 0, 0, 0, 1 :: byte]
   \<and> parseAddrRange env0 block_min_max_step (parseRawMACAddr env0) =
       Err (Errorf ''unknown key %s'' [ArgStr ''step''])"
  by (simp add: block_min_max_step_def parseAddrRange_def parseRawMACAddr_def mac_01 mac_0f
        eval_simps)

section \<open>Lengths and order of a parsed range\<close>















end
